theory Spec2Isabelle
  imports Complex_Main
begin

section \<open>Python values\<close>

text \<open>
  A Python \<open>str\<close> is a sequence of Unicode code points; a code point is the integer
  that \<open>ord\<close> returns. Finite Python floats are idealised as real numbers: every
  statement below about a rate, a profit or a balance is a statement about exact
  arithmetic. NaN is modelled where the code meets it, in the payout of a row of the
  data frame of \<open>summarize_resolved\<close>.
\<close>

type_synonym cp = int
type_synonym pystr = "cp list"

definition asc :: "string \<Rightarrow> pystr" where
  "asc s = map of_char s"

definition WIN :: pystr where "WIN = asc ''WIN''"
definition LOSS :: pystr where "LOSS = asc ''LOSS''"
definition DOJI :: pystr where "DOJI = asc ''DOJI''"

datatype pyerr = IndexError | TypeError | ValueError

text \<open>\<open>xs[i]\<close> and \<open>xs[:k]\<close> with Python's negative indices.\<close>

definition py_index :: "'a list \<Rightarrow> int \<Rightarrow> pyerr + 'a" where
  "py_index xs i =
     (let j = (if i < 0 then i + int (length xs) else i)
      in if j < 0 \<or> int (length xs) \<le> j then Inl IndexError else Inr (xs ! nat j))"

definition slice_to :: "'a list \<Rightarrow> int \<Rightarrow> 'a list" where
  "slice_to xs k = (if k < 0 then take (nat (int (length xs) + k)) xs else take (nat k) xs)"

subsection \<open>Strings\<close>

text \<open>
  \<open>str.isspace\<close>, which is also the class \<open>\s\<close> of \<open>re\<close> and what \<open>str.strip\<close>
  removes, and the line boundaries of \<open>str.splitlines\<close>: both are fixed lists of code
  points in CPython.
\<close>

definition isspace :: "cp \<Rightarrow> bool" where
  "isspace c \<longleftrightarrow>
     (9 \<le> c \<and> c \<le> 13) \<or> (28 \<le> c \<and> c \<le> 32) \<or> c = 133 \<or> c = 160 \<or> c = 5760
     \<or> (8192 \<le> c \<and> c \<le> 8202) \<or> c = 8232 \<or> c = 8233 \<or> c = 8239 \<or> c = 8287 \<or> c = 12288"

definition islinebreak :: "cp \<Rightarrow> bool" where
  "islinebreak c \<longleftrightarrow>
     (10 \<le> c \<and> c \<le> 13) \<or> (28 \<le> c \<and> c \<le> 30) \<or> c = 133 \<or> c = 8232 \<or> c = 8233"

definition strip :: "pystr \<Rightarrow> pystr" where
  "strip s = rev (dropWhile isspace (rev (dropWhile isspace s)))"

text \<open>\<open>s.splitlines()\<close>: \<open>cur\<close> is the line being read; \<open>\r\n\<close> is one boundary.\<close>

fun splitlines_from :: "pystr \<Rightarrow> pystr \<Rightarrow> pystr list" where
  "splitlines_from cur [] = (if cur = [] then [] else [cur])"
| "splitlines_from cur [c] = (if islinebreak c then [cur] else [cur @ [c]])"
| "splitlines_from cur (c # d # cs) =
     (if c = 13 \<and> d = 10 then cur # splitlines_from [] cs
      else if islinebreak c then cur # splitlines_from [] (d # cs)
      else splitlines_from (cur @ [c]) (d # cs))"

definition splitlines :: "pystr \<Rightarrow> pystr list" where
  "splitlines s = splitlines_from [] s"

fun join_with :: "pystr \<Rightarrow> pystr list \<Rightarrow> pystr" where
  "join_with sep [] = []"
| "join_with sep [x] = x"
| "join_with sep (x # y # ys) = x @ sep @ join_with sep (y # ys)"

text \<open>\<open>" ".join(text.splitlines()).strip()\<close>\<close>

definition one_line_of :: "pystr \<Rightarrow> pystr" where
  "one_line_of s = strip (join_with [32] (splitlines s))"

definition startswith :: "pystr \<Rightarrow> pystr \<Rightarrow> bool" where
  "startswith s pre \<longleftrightarrow> take (length pre) s = pre"

text \<open>\<open>needle in s\<close> for two strings.\<close>

fun contains :: "pystr \<Rightarrow> pystr \<Rightarrow> bool" where
  "contains needle [] = (needle = [])"
| "contains needle (c # cs) = (startswith (c # cs) needle \<or> contains needle cs)"

subsection \<open>Values of unknown shape\<close>

text \<open>
  What \<open>json.load\<close> returns, and the two calendar types \<open>try_parse_iso_date\<close> tests
  for. A dict is an association list; a calendar date is (year, month, day).
\<close>

type_synonym date = "int \<times> int \<times> int"

datatype pyval =
    VNone
  | VBool bool
  | VInt int
  | VFloat real
  | VStr pystr
  | VList "pyval list"
  | VDict "(pystr \<times> pyval) list"
  | VDate date
  | VDateTime date

type_synonym msg = "(pystr \<times> pyval) list"

fun truthy :: "pyval \<Rightarrow> bool" where
  "truthy VNone = False"
| "truthy (VBool b) = b"
| "truthy (VInt n) = (n \<noteq> 0)"
| "truthy (VFloat x) = (x \<noteq> 0)"
| "truthy (VStr s) = (s \<noteq> [])"
| "truthy (VList xs) = (xs \<noteq> [])"
| "truthy (VDict kvs) = (kvs \<noteq> [])"
| "truthy (VDate d) = True"
| "truthy (VDateTime d) = True"

definition py_or :: "pyval \<Rightarrow> pyval \<Rightarrow> pyval" where
  "py_or a b = (if truthy a then a else b)"

text \<open>\<open>d.get(k)\<close>, \<open>d.get(k, default)\<close> and \<open>k in d\<close>.\<close>

definition dget :: "(pystr \<times> pyval) list \<Rightarrow> pystr \<Rightarrow> pyval" where
  "dget d k = (case map_of d k of None \<Rightarrow> VNone | Some v \<Rightarrow> v)"

definition dget_default :: "(pystr \<times> pyval) list \<Rightarrow> pystr \<Rightarrow> pyval \<Rightarrow> pyval" where
  "dget_default d k dflt = (case map_of d k of None \<Rightarrow> dflt | Some v \<Rightarrow> v)"

definition has_key :: "(pystr \<times> pyval) list \<Rightarrow> pystr \<Rightarrow> bool" where
  "has_key d k \<longleftrightarrow> map_of d k \<noteq> None"

subsection \<open>The Python runtime\<close>

text \<open>
  The functions use tables and library routines of the Python runtime that are not part
  of the repository. On ASCII the model fixes them; beyond ASCII they are the fields of
  \<open>pylib\<close>, a parameter of every function that needs them:
  \<^item> \<open>ext_digit\<close>: the decimal value of a non-ASCII decimal digit (\<open>\d\<close>, \<open>int\<close>, \<open>float\<close>);
  \<^item> \<open>ext_word\<close>: the non-ASCII members of \<open>\w\<close>;
  \<^item> \<open>ext_variants\<close>: for a non-ASCII code point, the other code points it stands for
    under \<open>re.IGNORECASE\<close>;
  \<^item> \<open>ext_upper\<close>: \<open>str.upper\<close> on a non-ASCII code point;
  \<^item> \<open>utcoff\<close>: the offset of local time from UTC, in seconds, at an instant;
  \<^item> \<open>strptime\<close>, \<open>fromisoformat\<close>: the date of \<open>datetime.strptime(s, fmt)\<close> and of
    \<open>datetime.fromisoformat(s)\<close>, or the exception they raise;
  \<^item> \<open>py_repr\<close>: \<open>str(v)\<close> for a value that is not a string.
\<close>

record pylib =
  ext_digit :: "cp \<Rightarrow> int option"
  ext_word :: "cp \<Rightarrow> bool"
  ext_variants :: "cp \<Rightarrow> cp list"
  ext_upper :: "cp \<Rightarrow> pystr"
  utcoff :: "int \<Rightarrow> int"
  strptime :: "pystr \<Rightarrow> pystr \<Rightarrow> pyerr + date"
  fromisoformat :: "pystr \<Rightarrow> pyerr + date"
  py_repr :: "pyval \<Rightarrow> pystr"

definition digit_val :: "pylib \<Rightarrow> cp \<Rightarrow> int option" where
  "digit_val lib c =
     (if 48 \<le> c \<and> c \<le> 57 then Some (c - 48)
      else if c < 128 then None else ext_digit lib c)"

definition is_digit :: "pylib \<Rightarrow> cp \<Rightarrow> bool" where
  "is_digit lib c \<longleftrightarrow> digit_val lib c \<noteq> None"

definition is_word :: "pylib \<Rightarrow> cp \<Rightarrow> bool" where
  "is_word lib c \<longleftrightarrow>
     (if c < 128 then (48 \<le> c \<and> c \<le> 57) \<or> (65 \<le> c \<and> c \<le> 90) \<or> (97 \<le> c \<and> c \<le> 122) \<or> c = 95
      else ext_word lib c)"

definition upper_cp :: "pylib \<Rightarrow> cp \<Rightarrow> pystr" where
  "upper_cp lib c =
     (if 97 \<le> c \<and> c \<le> 122 then [c - 32] else if c < 128 then [c] else ext_upper lib c)"

definition py_upper :: "pylib \<Rightarrow> pystr \<Rightarrow> pystr" where
  "py_upper lib s = concat (map (upper_cp lib) s)"

text \<open>The code points an input code point stands for when case is ignored.\<close>

definition ci_variants :: "pylib \<Rightarrow> cp \<Rightarrow> cp list" where
  "ci_variants lib c =
     (if 65 \<le> c \<and> c \<le> 90 then [c, c + 32]
      else if 97 \<le> c \<and> c \<le> 122 then [c, c - 32]
      else if c < 128 then [c]
      else c # ext_variants lib c)"

definition ci :: "pylib \<Rightarrow> (cp \<Rightarrow> bool) \<Rightarrow> cp \<Rightarrow> bool" where
  "ci lib P c \<longleftrightarrow> list_ex P (ci_variants lib c)"

definition py_str :: "pylib \<Rightarrow> pyval \<Rightarrow> pystr" where
  "py_str lib v = (case v of VStr s \<Rightarrow> s | _ \<Rightarrow> py_repr lib v)"

text \<open>
  \<open>int(s)\<close> and \<open>float(s)\<close> on the strings the patterns let through: decimal digits,
  and digits with dots. \<open>None\<close> is the ValueError.
\<close>

fun digits_value :: "pylib \<Rightarrow> pystr \<Rightarrow> int \<Rightarrow> int option" where
  "digits_value lib [] acc = Some acc"
| "digits_value lib (c # cs) acc =
     (case digit_val lib c of None \<Rightarrow> None | Some d \<Rightarrow> digits_value lib cs (10 * acc + d))"

definition py_int :: "pylib \<Rightarrow> pystr \<Rightarrow> int option" where
  "py_int lib s = (if s = [] then None else digits_value lib s 0)"

definition py_float :: "pylib \<Rightarrow> pystr \<Rightarrow> real option" where
  "py_float lib s =
     (let ip = takeWhile (\<lambda>c. c \<noteq> 46) s;
          fp = drop 1 (dropWhile (\<lambda>c. c \<noteq> 46) s)
      in if ip = [] \<and> fp = [] then None
         else case (digits_value lib ip 0, digits_value lib fp 0) of
                (Some a, Some b) \<Rightarrow> Some (of_int a + of_int b / 10 ^ length fp)
              | _ \<Rightarrow> None)"

section \<open>Regular expressions\<close>

text \<open>
  The patterns of the repository use single characters and character classes, greedy
  \<open>*\<close>, \<open>+\<close>, \<open>?\<close> and \<open>{2}\<close> on them, an optional literal, alternatives of literals,
  groups and \<open>$\<close>. \<open>run\<close> lists the ways a pattern matches a prefix of the input in
  the order in which the backtracking matcher of \<open>re\<close> tries them: the longest
  repetition first, the left alternative first. A state is the rest of the input and
  the groups captured so far.
\<close>

datatype rx =
    Chr "cp \<Rightarrow> bool"
  | Star "cp \<Rightarrow> bool"
  | Seq rx rx
  | Alt rx rx
  | Opt rx
  | Grp string rx
  | Eps
  | Eol

type_synonym mstate = "pystr \<times> (string \<times> pystr) list"

fun star_rests :: "(cp \<Rightarrow> bool) \<Rightarrow> pystr \<Rightarrow> pystr list" where
  "star_rests p [] = [[]]"
| "star_rests p (c # cs) = (if p c then star_rests p cs @ [c # cs] else [c # cs])"

fun run :: "rx \<Rightarrow> mstate \<Rightarrow> mstate list" where
  "run (Chr p) (s, caps) = (case s of [] \<Rightarrow> [] | c # cs \<Rightarrow> if p c then [(cs, caps)] else [])"
| "run (Star p) (s, caps) = map (\<lambda>r. (r, caps)) (star_rests p s)"
| "run (Seq a b) st = concat (map (run b) (run a st))"
| "run (Alt a b) st = run a st @ run b st"
| "run (Opt a) st = run a st @ [st]"
| "run (Grp g a) (s, caps) =
     map (\<lambda>(r, c). (r, (g, take (length s - length r) s) # c)) (run a (s, caps))"
| "run Eps st = [st]"
| "run Eol (s, caps) = (if s = [] \<or> s = [10] then [(s, caps)] else [])"

text \<open>\<open>pattern.match(s)\<close> and \<open>re.search(pattern, s)\<close>: the groups of the first match.\<close>

definition re_match :: "rx \<Rightarrow> pystr \<Rightarrow> (string \<times> pystr) list option" where
  "re_match r s = (case run r (s, []) of [] \<Rightarrow> None | st # _ \<Rightarrow> Some (snd st))"

fun re_search :: "rx \<Rightarrow> pystr \<Rightarrow> (string \<times> pystr) list option" where
  "re_search r [] = re_match r []"
| "re_search r (c # cs) =
     (case re_match r (c # cs) of Some caps \<Rightarrow> Some caps | None \<Rightarrow> re_search r cs)"

definition m_group :: "(string \<times> pystr) list \<Rightarrow> string \<Rightarrow> pystr" where
  "m_group caps g = (case map_of caps g of None \<Rightarrow> [] | Some w \<Rightarrow> w)"

definition seqs :: "rx list \<Rightarrow> rx" where
  "seqs rs = foldr Seq rs Eps"

definition plus_rx :: "(cp \<Rightarrow> bool) \<Rightarrow> rx" where
  "plus_rx p = Seq (Chr p) (Star p)"

text \<open>A literal of the pattern, under \<open>re.IGNORECASE\<close>.\<close>

definition lit :: "pylib \<Rightarrow> string \<Rightarrow> rx" where
  "lit lib w = seqs (map (\<lambda>ch. Chr (ci lib (\<lambda>c. c = of_char ch))) w)"

definition ws :: rx where
  "ws = Star isspace"

text \<open>\<open>\d{2}:\d{2}:\d{2}\<close>\<close>

definition hms :: "pylib \<Rightarrow> rx" where
  "hms lib =
     seqs [Chr (is_digit lib), Chr (is_digit lib), lit lib '':'',
           Chr (is_digit lib), Chr (is_digit lib), lit lib '':'',
           Chr (is_digit lib), Chr (is_digit lib)]"

text \<open>\<open>[A-Z0-9\-\_]+(?:-OTC)?\<close>\<close>

definition pair_class :: "cp \<Rightarrow> bool" where
  "pair_class c \<longleftrightarrow> (65 \<le> c \<and> c \<le> 90) \<or> (48 \<le> c \<and> c \<le> 57) \<or> c = 45 \<or> c = 95"

definition pair_rx :: "pylib \<Rightarrow> rx" where
  "pair_rx lib = Seq (plus_rx (ci lib pair_class)) (Opt (lit lib ''-OTC''))"

text \<open>The check marks U+2705, U+274C, U+1F0CF and the superscripts U+00B9, U+00B2, U+00B3.\<close>

definition check_class :: "cp \<Rightarrow> bool" where
  "check_class c \<longleftrightarrow> c = 9989 \<or> c = 10060 \<or> c = 127183"

definition sup_class :: "pylib \<Rightarrow> cp \<Rightarrow> bool" where
  "sup_class lib c \<longleftrightarrow> c = 185 \<or> c = 178 \<or> c = 179 \<or> is_digit lib c"

text \<open>\<open>w1|w2|...\<close>; without alternatives nothing matches.\<close>

fun alts_rx :: "pylib \<Rightarrow> string list \<Rightarrow> rx" where
  "alts_rx lib [] = Chr (\<lambda>c. False)"
| "alts_rx lib [w] = lit lib w"
| "alts_rx lib (w # v # vs) = Alt (lit lib w) (alts_rx lib (v # vs))"

text \<open>
  The resolved-line pattern, with the name of the last group and its alternatives as
  parameters: the \<open>RESOLVED_RE\<close> of the modules differ in them only.
\<close>

definition resolved_rx :: "pylib \<Rightarrow> string \<Rightarrow> string list \<Rightarrow> rx" where
  "resolved_rx lib rname alts =
     seqs [Grp ''check'' (Chr (ci lib check_class)),
           Grp ''sup'' (Opt (Chr (ci lib (sup_class lib)))),
           ws,
           Grp ''pair'' (pair_rx lib), ws, lit lib ''-'', ws,
           Grp ''time'' (hms lib), ws, lit lib ''-'', ws,
           Grp ''tf'' (plus_rx (is_word lib)), ws, lit lib ''-'', ws,
           Grp ''dir'' (plus_rx (is_word lib)), ws, lit lib ''-'', ws,
           Grp rname (alts_rx lib alts),
           Eol]"

text \<open>The three patterns of the open-signal block.\<close>

definition ativo_rx :: "pylib \<Rightarrow> rx" where
  "ativo_rx lib = seqs [lit lib ''Ativo:'', ws, Grp ''1'' (pair_rx lib)]"

definition horario_rx :: "pylib \<Rightarrow> rx" where
  "horario_rx lib =
     seqs [lit lib ''Hor'', Chr (ci lib (\<lambda>c. c = 97 \<or> c = 225)), lit lib ''rio:'', ws,
           Grp ''1'' (hms lib)]"

definition payout_rx :: "pylib \<Rightarrow> rx" where
  "payout_rx lib =
     seqs [lit lib ''Payout:'', ws, Grp ''1'' (plus_rx (\<lambda>c. is_digit lib c \<or> c = 46)), ws,
           lit lib ''%'']"

definition SUPERSCRIPT_MAP :: "(pystr \<times> nat) list" where
  "SUPERSCRIPT_MAP =
     [([185], 1), ([178], 2), ([179], 3), (asc ''1'', 1), (asc ''2'', 2), (asc ''3'', 3)]"

definition sup_to_level :: "pystr \<Rightarrow> nat" where
  "sup_to_level s =
     (if s = [] then 0 else case map_of SUPERSCRIPT_MAP s of None \<Rightarrow> 0 | Some n \<Rightarrow> n)"

section \<open>Trade records\<close>

text \<open>
  The extractors build dicts. \<open>gestao_risco\<close> keeps \<open>result\<close> and \<open>gale_level\<close>
  only; the other modules add the instrument, the time and the payout; \<open>app\<close> adds
  the message date on top. The gale level is what \<open>sup_to_level\<close> returns, a natural
  number.
\<close>

record g_rec =
  result :: pystr
  gale_level :: nat

record v_rec = g_rec +
  pair :: pystr
  time :: pystr
  hour :: "int option"
  tf :: pystr
  direction :: pystr
  payout :: "real option"

record a_rec = v_rec +
  msg_date :: "date option"

definition count_result :: "pystr \<Rightarrow> ('a g_rec_scheme) list \<Rightarrow> nat" where
  "count_result s rs = length (filter (\<lambda>r. result r = s) rs)"

section \<open>gestao\_risco: profit, equity curve, drawdown\<close>

definition calculate_profit :: "pystr \<Rightarrow> nat \<Rightarrow> real list \<Rightarrow> real \<Rightarrow> pyerr + real" where
  "calculate_profit res g stakes p =
     (if res = DOJI then Inr 0
      else
        let level = min (int g) (int (length stakes) - 1) in
        if res = WIN then
          (if level = 0 then
             (case py_index stakes 0 of Inl e \<Rightarrow> Inl e | Inr s0 \<Rightarrow> Inr (s0 * p))
           else
             (let lost = sum_list (slice_to stakes level) in
              case py_index stakes level of
                Inl e \<Rightarrow> Inl e
              | Inr sl \<Rightarrow> Inr (- lost + sl * p)))
        else Inr (- sum_list (slice_to stakes (level + 1))))"

fun equity_loop ::
  "('a g_rec_scheme) list \<Rightarrow> real list \<Rightarrow> real \<Rightarrow> real list \<Rightarrow> real \<Rightarrow> pyerr + real list" where
  "equity_loop [] stakes p equity current = Inr equity"
| "equity_loop (r # rs) stakes p equity current =
     (case calculate_profit (result r) (gale_level r) stakes p of
        Inl e \<Rightarrow> Inl e
      | Inr profit \<Rightarrow> equity_loop rs stakes p (equity @ [current + profit]) (current + profit))"

definition simulate_equity_curve ::
  "('a g_rec_scheme) list \<Rightarrow> real \<Rightarrow> real list \<Rightarrow> real \<Rightarrow> pyerr + real list" where
  "simulate_equity_curve records capital stakes p = equity_loop records stakes p [capital] capital"

text \<open>The drawdown loop of \<open>render_from_json\<close>: one forward pass over the curve.\<close>

record dd_state =
  peak :: real
  max_dd :: real
  max_dd_pct :: real
  min_balance :: real

definition dd_step :: "dd_state \<Rightarrow> real \<Rightarrow> dd_state" where
  "dd_step s balance =
     (let pk = (if balance > peak s then balance else peak s);
          dd = pk - balance;
          dd_pct = (if pk > 0 then dd / pk * 100 else 0)
      in \<lparr> peak = pk,
           max_dd = (if dd > max_dd s then dd else max_dd s),
           max_dd_pct = (if dd > max_dd s then dd_pct else max_dd_pct s),
           min_balance = (if balance < min_balance s then balance else min_balance s) \<rparr>)"

definition drawdown :: "real \<Rightarrow> real list \<Rightarrow> dd_state" where
  "drawdown capital curve =
     foldl dd_step \<lparr> peak = capital, max_dd = 0, max_dd_pct = 0, min_balance = capital \<rparr> curve"

definition capital_inicial :: real where "capital_inicial = 500"
definition payout_minimo :: real where "payout_minimo = 85 / 100"
definition stakes_c1 :: "real list" where "stakes_c1 = [2, 43 / 10, 924 / 100]"

record risk_report =
  total_ops :: nat
  wins :: nat
  losses :: nat
  win_rate :: real
  loss_rate :: real
  equity_curve :: "real list"
  dd :: dd_state
  final_balance :: real
  prob_2_loss :: real
  prob_3_loss :: real
  prob_4_loss :: real
  prob_5_loss :: real

text \<open>
  The calculations of \<open>gestao_risco.render_from_json\<close> on the extracted records. An
  empty frame ends in the warning and no report (\<open>None\<close>).
\<close>

definition risk_calc :: "('a g_rec_scheme) list \<Rightarrow> pyerr + risk_report option" where
  "risk_calc records =
     (if records = [] then Inr None
      else
        let w = count_result WIN records;
            l = count_result LOSS records;
            wr = (if w + l > 0 then real w / real (w + l) else 0);
            lr = 1 - wr
        in case simulate_equity_curve records capital_inicial stakes_c1 payout_minimo of
             Inl e \<Rightarrow> Inl e
           | Inr curve \<Rightarrow>
               Inr (Some \<lparr> total_ops = length records, wins = w, losses = l,
                            win_rate = wr, loss_rate = lr,
                            equity_curve = curve,
                            dd = drawdown capital_inicial curve,
                            final_balance = last curve,
                            prob_2_loss = lr ^ 2 * 100,
                            prob_3_loss = lr ^ 3 * 100,
                            prob_4_loss = lr ^ 4 * 100,
                            prob_5_loss = lr ^ 5 * 100 \<rparr>))"

section \<open>app: the date normalizer\<close>

text \<open>
  The calendar date of a day number (days since 1970-01-01) in the proleptic Gregorian
  calendar, which is the calendar of \<open>datetime\<close>.
\<close>

definition civil_from_days :: "int \<Rightarrow> date" where
  "civil_from_days z0 =
     (let z = z0 + 719468;
          era = z div 146097;
          doe = z - era * 146097;
          yoe = (doe - doe div 1460 + doe div 36524 - doe div 146096) div 365;
          doy = doe - (365 * yoe + yoe div 4 - yoe div 100);
          mp = (5 * doy + 2) div 153;
          d = doy - (153 * mp + 2) div 5 + 1;
          m = (if mp < 10 then mp + 3 else mp - 9);
          y = yoe + era * 400 + (if m \<le> 2 then 1 else 0)
      in (y, m, d))"

text \<open>
  \<open>datetime.fromtimestamp(t).date()\<close> for \<open>t\<close> whole seconds: the local date, and an
  exception when its year is outside 1..9999.
\<close>

definition fromtimestamp :: "pylib \<Rightarrow> int \<Rightarrow> pyerr + date" where
  "fromtimestamp lib t =
     (let d = civil_from_days ((t + utcoff lib t) div 86400)
      in if 1 \<le> fst d \<and> fst d \<le> 9999 then Inr d else Inl ValueError)"

text \<open>\<open>digits and digits == s2\<close>, with \<open>digits = re.sub(r"\D", "", s2)\<close>.\<close>

definition is_numeric :: "pylib \<Rightarrow> pystr \<Rightarrow> bool" where
  "is_numeric lib s2 \<longleftrightarrow> (let digits = filter (is_digit lib) s2 in digits \<noteq> [] \<and> digits = s2)"

text \<open>
  The body of the first \<open>try\<close>: the date it returns or the exception it raises. The
  date depends on the whole seconds of \<open>n / 1000.0\<close> only.
\<close>

definition epoch_try :: "pylib \<Rightarrow> pystr \<Rightarrow> pyerr + date" where
  "epoch_try lib s2 =
     (case py_int lib s2 of
        None \<Rightarrow> Inl ValueError
      | Some n \<Rightarrow>
          if n > 1000000000000 then fromtimestamp lib (n div 1000)
          else fromtimestamp lib n)"

definition FORMATS :: "pystr list" where
  "FORMATS = [asc ''%Y-%m-%dT%H:%M:%S'', asc ''%Y-%m-%d %H:%M:%S'', asc ''%Y-%m-%d'',
              asc ''%d/%m/%Y'']"

text \<open>The loop over the formats: the first format that parses returns, an exception passes on.\<close>

fun format_stage :: "pylib \<Rightarrow> pystr \<Rightarrow> pystr list \<Rightarrow> date option" where
  "format_stage lib s [] = None"
| "format_stage lib s (fmt # fmts) =
     (case strptime lib s fmt of Inr d \<Rightarrow> Some d | Inl e \<Rightarrow> format_stage lib s fmts)"

definition later_stages :: "pylib \<Rightarrow> pystr \<Rightarrow> date option" where
  "later_stages lib s2 =
     (let s3 = (if s2 \<noteq> [] \<and> last s2 = 90 then butlast s2 else s2)
      in case format_stage lib s3 FORMATS of
           Some d \<Rightarrow> Some d
         | None \<Rightarrow> (case fromisoformat lib s3 of Inr d \<Rightarrow> Some d | Inl e \<Rightarrow> None))"

text \<open>
  Every call that can raise stands in a \<open>try\<close> whose \<open>except\<close> catches everything, so
  the function has no exceptional result: it returns a date or \<open>None\<close>.
\<close>

definition try_parse_iso_date :: "pylib \<Rightarrow> pyval \<Rightarrow> date option" where
  "try_parse_iso_date lib s =
     (if \<not> truthy s then None
      else case s of
             VDate d \<Rightarrow> Some d
           | VDateTime d \<Rightarrow> Some d
           | _ \<Rightarrow>
               (let s2 = strip (py_str lib s)
                in if is_numeric lib s2 then
                     (case epoch_try lib s2 of
                        Inr d \<Rightarrow> Some d
                      | Inl e \<Rightarrow> later_stages lib s2)
                   else later_stages lib s2))"

section \<open>The message text accessor\<close>

text \<open>\<open>_get_text_from_msg\<close>, the same in every module but \<open>app\<close>.\<close>

fun first_text :: "msg \<Rightarrow> pystr list \<Rightarrow> pystr option" where
  "first_text m [] = None"
| "first_text m (k # ks) =
     (case dget m k of
        VStr v \<Rightarrow> if strip v \<noteq> [] then Some v else first_text m ks
      | _ \<Rightarrow> first_text m ks)"

definition get_text_from_msg :: "msg \<Rightarrow> pystr" where
  "get_text_from_msg m =
     (case first_text m [asc ''text'', asc ''message.text'', asc ''message'', asc ''message_text''] of
        Some v \<Rightarrow> v
      | None \<Rightarrow>
          (case py_or (dget m (asc ''text'')) (dget m (asc ''message'')) of
             VStr v \<Rightarrow> v
           | _ \<Rightarrow> []))"

section \<open>gestao\_risco: extraction\<close>

definition normalize_result :: "pystr \<Rightarrow> pystr" where
  "normalize_result result_raw =
     (if result_raw = DOJI then DOJI else if result_raw = WIN then WIN else LOSS)"

definition g_RESOLVED_RE :: "pylib \<Rightarrow> rx" where
  "g_RESOLVED_RE lib = resolved_rx lib ''r'' [''WIN'', ''LOSS'', ''DOJI'']"

fun g_extract_loop :: "pylib \<Rightarrow> msg list \<Rightarrow> g_rec list \<Rightarrow> g_rec list" where
  "g_extract_loop lib [] records = records"
| "g_extract_loop lib (m # ms) records =
     (let text = get_text_from_msg m in
      if text = [] then g_extract_loop lib ms records
      else
        case re_match (g_RESOLVED_RE lib) (one_line_of text) of
          None \<Rightarrow> g_extract_loop lib ms records
        | Some caps \<Rightarrow>
            (let sup = m_group caps ''sup'';
                 gale = sup_to_level sup;
                 result_raw = py_upper lib (strip (m_group caps ''r''))
             in g_extract_loop lib ms
                  (records @ [\<lparr> result = normalize_result result_raw, gale_level = gale \<rparr>])))"

definition g_extract_records :: "pylib \<Rightarrow> msg list \<Rightarrow> g_rec list" where
  "g_extract_records lib messages = g_extract_loop lib messages []"

section \<open>validacao\_horarios: two passes\<close>

text \<open>
  The open-signal recognizer of the first pass: the key (instrument, time) and the
  payout, which is \<open>None\<close> when the percentage is absent or unreadable.
\<close>

definition v_signal :: "pylib \<Rightarrow> msg \<Rightarrow> ((pystr \<times> pystr) \<times> real option) option" where
  "v_signal lib m =
     (let text = get_text_from_msg m in
      if contains (asc ''Ativo:'') text \<or> contains (asc ''Payout:'') text then
        (case (re_search (ativo_rx lib) text, re_search (horario_rx lib) text) of
           (Some m_pair, Some m_time) \<Rightarrow>
             Some ((strip (m_group m_pair ''1''), strip (m_group m_time ''1'')),
                   (case re_search (payout_rx lib) text of
                      None \<Rightarrow> None
                    | Some m_pay \<Rightarrow> map_option (\<lambda>x. x / 100) (py_float lib (m_group m_pay ''1''))))
         | _ \<Rightarrow> None)
      else None)"

fun v_pass1 ::
  "pylib \<Rightarrow> msg list \<Rightarrow> (pystr \<times> pystr \<rightharpoonup> real option) \<Rightarrow> (pystr \<times> pystr \<rightharpoonup> real option)" where
  "v_pass1 lib [] signals = signals"
| "v_pass1 lib (m # ms) signals =
     v_pass1 lib ms (case v_signal lib m of None \<Rightarrow> signals | Some (k, p) \<Rightarrow> signals(k \<mapsto> p))"

definition v_RESOLVED_RE :: "pylib \<Rightarrow> rx" where
  "v_RESOLVED_RE lib = resolved_rx lib ''result'' [''WIN'', ''LOSS'', ''DOJI'']"

text \<open>\<open>int(time.split(":")[0]) if time else None\<close>; the \<open>int\<close> may raise.\<close>

definition hour_of :: "pylib \<Rightarrow> pystr \<Rightarrow> pyerr + int option" where
  "hour_of lib t =
     (if t = [] then Inr None
      else case py_int lib (takeWhile (\<lambda>c. c \<noteq> 58) t) of
             None \<Rightarrow> Inl ValueError
           | Some h \<Rightarrow> Inr (Some h))"

text \<open>The record of one message in the second pass: none, one, or an exception.\<close>

definition v_record :: "pylib \<Rightarrow> (pystr \<times> pystr \<rightharpoonup> real option) \<Rightarrow> msg \<Rightarrow> pyerr + v_rec option" where
  "v_record lib signals m =
     (let text = get_text_from_msg m in
      if text = [] then Inr None
      else
        case re_match (v_RESOLVED_RE lib) (one_line_of text) of
          None \<Rightarrow> Inr None
        | Some caps \<Rightarrow>
            (let gale = sup_to_level (m_group caps ''sup'');
                 pr = strip (m_group caps ''pair'');
                 tm = strip (m_group caps ''time'');
                 result_raw = py_upper lib (strip (m_group caps ''result''))
             in case hour_of lib tm of
                  Inl e \<Rightarrow> Inl e
                | Inr h \<Rightarrow>
                    Inr (Some \<lparr> result = normalize_result result_raw, gale_level = gale,
                                 pair = pr, time = tm, hour = h,
                                 tf = strip (m_group caps ''tf''),
                                 direction = strip (m_group caps ''dir''),
                                 payout = (case signals (pr, tm) of None \<Rightarrow> None | Some p \<Rightarrow> p) \<rparr>)))"

fun v_pass2 ::
  "pylib \<Rightarrow> (pystr \<times> pystr \<rightharpoonup> real option) \<Rightarrow> msg list \<Rightarrow> v_rec list \<Rightarrow> pyerr + v_rec list" where
  "v_pass2 lib signals [] records = Inr records"
| "v_pass2 lib signals (m # ms) records =
     (case v_record lib signals m of
        Inl e \<Rightarrow> Inl e
      | Inr None \<Rightarrow> v_pass2 lib signals ms records
      | Inr (Some r) \<Rightarrow> v_pass2 lib signals ms (records @ [r]))"

definition v_extract_records :: "pylib \<Rightarrow> msg list \<Rightarrow> pyerr + v_rec list" where
  "v_extract_records lib messages = v_pass2 lib (v_pass1 lib messages Map.empty) messages []"

section \<open>app: extraction in one pass\<close>

record blk =
  blk_pair :: "pystr option"
  blk_time :: "pystr option"
  blk_payout :: "real option"

definition parse_signal_block :: "pylib \<Rightarrow> pystr \<Rightarrow> blk" where
  "parse_signal_block lib text =
     \<lparr> blk_pair = map_option (\<lambda>m. strip (m_group m ''1'')) (re_search (ativo_rx lib) text),
       blk_time = map_option (\<lambda>m. m_group m ''1'') (re_search (horario_rx lib) text),
       blk_payout =
         (case re_search (payout_rx lib) text of
            None \<Rightarrow> None
          | Some m \<Rightarrow> map_option (\<lambda>x. x / 100) (py_float lib (m_group m ''1''))) \<rparr>"

definition RESOLVED_RE :: "pylib \<Rightarrow> rx" where
  "RESOLVED_RE lib = resolved_rx lib ''result'' [''WIN'', ''LOSS'', ''DOJI'', ''Doji'', ''Doji'']"

text \<open>
  \<open>"".join([t.get("text", "") if isinstance(t, dict) else str(t) for t in text])\<close>:
  \<open>join\<close> raises TypeError on a fragment that is not a string.
\<close>

fun join_fragments :: "pylib \<Rightarrow> pyval list \<Rightarrow> pyerr + pystr" where
  "join_fragments lib [] = Inr []"
| "join_fragments lib (t # ts) =
     (case (case t of VDict d \<Rightarrow> dget_default d (asc ''text'') (VStr []) | _ \<Rightarrow> VStr (py_str lib t)) of
        VStr w \<Rightarrow> (case join_fragments lib ts of Inl e \<Rightarrow> Inl e | Inr rest \<Rightarrow> Inr (w @ rest))
      | _ \<Rightarrow> Inl TypeError)"

text \<open>\<open>needle in v\<close>: a substring test, a key test, a member test, or TypeError.\<close>

definition py_in :: "pystr \<Rightarrow> pyval \<Rightarrow> pyerr + bool" where
  "py_in needle v =
     (case v of
        VStr w \<Rightarrow> Inr (contains needle w)
      | VDict d \<Rightarrow> Inr (has_key d needle)
      | VList xs \<Rightarrow> Inr (VStr needle \<in> set xs)
      | _ \<Rightarrow> Inl TypeError)"

text \<open>The date of a message: the first key that is present and not null decides.\<close>

fun date_from_keys :: "pylib \<Rightarrow> msg \<Rightarrow> pystr list \<Rightarrow> date option" where
  "date_from_keys lib m [] = None"
| "date_from_keys lib m (k # ks) =
     (if has_key m k \<and> dget m k \<noteq> VNone then try_parse_iso_date lib (dget m k)
      else date_from_keys lib m ks)"

definition message_date :: "pylib \<Rightarrow> msg \<Rightarrow> date option" where
  "message_date lib m =
     (case date_from_keys lib m
             [asc ''date'', asc ''message.date'', asc ''message.date_unixtime'',
              asc ''message.date_unixtime_str''] of
        Some d \<Rightarrow> Some d
      | None \<Rightarrow>
          try_parse_iso_date lib
            (py_or (py_or (dget m (asc ''text'')) (dget m (asc ''message''))) (VStr [])))"

definition a_normalize_result :: "pystr \<Rightarrow> pystr" where
  "a_normalize_result result_raw =
     (if result_raw = DOJI then DOJI
      else if result_raw = WIN then WIN
      else if result_raw = LOSS then LOSS
      else result_raw)"

text \<open>
  One turn of the loop of \<open>extract_records\<close>: the state is the list \<open>resolved\<close> and
  the dict \<open>signals\<close>.
\<close>

definition a_step ::
  "pylib \<Rightarrow> a_rec list \<times> (pystr \<times> pystr \<rightharpoonup> real) \<Rightarrow> msg
     \<Rightarrow> pyerr + (a_rec list \<times> (pystr \<times> pystr \<rightharpoonup> real))" where
  "a_step lib st m =
     (let resolved = fst st; signals = snd st;
          text0 = dget_default m (asc ''text'') (VStr [])
      in case (case text0 of
                 VList ts \<Rightarrow> (case join_fragments lib ts of Inl e \<Rightarrow> Inl e | Inr w \<Rightarrow> Inr (VStr w))
               | _ \<Rightarrow> Inr text0) of
           Inl e \<Rightarrow> Inl e
         | Inr text \<Rightarrow>
             (case (case py_in (asc ''Ativo:'') text of
                      Inl e \<Rightarrow> Inl e
                    | Inr True \<Rightarrow> Inr True
                    | Inr False \<Rightarrow> py_in (asc ''Payout:'') text) of
                Inl e \<Rightarrow> Inl e
              | Inr is_signal \<Rightarrow>
                  (case (if is_signal then
                           (case text of
                              VStr w \<Rightarrow>
                                (let b = parse_signal_block lib w in
                                 case (blk_pair b, blk_time b, blk_payout b) of
                                   (Some bp, Some bt, Some bpay) \<Rightarrow> Inr (signals((bp, bt) \<mapsto> bpay))
                                 | _ \<Rightarrow> Inr signals)
                            | _ \<Rightarrow> Inl TypeError)
                         else Inr signals) of
                     Inl e \<Rightarrow> Inl e
                   | Inr signals' \<Rightarrow>
                       (case re_match (RESOLVED_RE lib) (one_line_of (py_str lib text)) of
                          None \<Rightarrow> Inr (resolved, signals')
                        | Some caps \<Rightarrow>
                            (let gale = sup_to_level (m_group caps ''sup'');
                                 pr = strip (m_group caps ''pair'');
                                 tm = strip (m_group caps ''time'');
                                 result_raw = py_upper lib (strip (m_group caps ''result''));
                                 md = message_date lib m
                             in case hour_of lib tm of
                                  Inl e \<Rightarrow> Inl e
                                | Inr h \<Rightarrow>
                                    Inr (resolved @
                                           [\<lparr> result = a_normalize_result result_raw,
                                              gale_level = gale, pair = pr, time = tm, hour = h,
                                              tf = strip (m_group caps ''tf''),
                                              direction = strip (m_group caps ''dir''),
                                              payout = signals' (pr, tm),
                                              msg_date = md \<rparr>],
                                         signals'))))))"

fun a_loop ::
  "pylib \<Rightarrow> msg list \<Rightarrow> a_rec list \<times> (pystr \<times> pystr \<rightharpoonup> real)
     \<Rightarrow> pyerr + (a_rec list \<times> (pystr \<times> pystr \<rightharpoonup> real))" where
  "a_loop lib [] st = Inr st"
| "a_loop lib (m # ms) st =
     (case a_step lib st m of Inl e \<Rightarrow> Inl e | Inr st' \<Rightarrow> a_loop lib ms st')"

definition extract_records ::
  "pylib \<Rightarrow> msg list \<Rightarrow> pyerr + (a_rec list \<times> (pystr \<times> pystr \<rightharpoonup> real))" where
  "extract_records lib messages = a_loop lib messages ([], Map.empty)"

section \<open>app: profit of a record and the summary\<close>

text \<open>
  The only caller of \<open>compute_profit_for_record\<close> is \<open>summarize_resolved\<close>, which
  passes the rows of \<open>pd.DataFrame(resolved)\<close> as dicts. A column of the frame that
  holds numbers and \<open>None\<close> is a column of floats in which \<open>None\<close> has become NaN; a
  column that holds \<open>None\<close> only keeps it. So the payout of a row is \<open>None\<close>, a
  number or NaN, and a profit is a number or NaN.
\<close>

datatype pyfloat = Fin real | NaN

definition fmul :: "real \<Rightarrow> pyfloat \<Rightarrow> pyfloat" where
  "fmul a p = (case p of Fin b \<Rightarrow> Fin (a * b) | NaN \<Rightarrow> NaN)"

definition fadd :: "real \<Rightarrow> pyfloat \<Rightarrow> pyfloat" where
  "fadd a p = (case p of Fin b \<Rightarrow> Fin (a + b) | NaN \<Rightarrow> NaN)"

record row = g_rec +
  row_payout :: "pyfloat option"

text \<open>\<open>r.to_dict()\<close> for the rows \<open>r\<close> of \<open>pd.DataFrame(resolved)\<close>.\<close>

definition frame_rows :: "('a v_rec_scheme) list \<Rightarrow> row list" where
  "frame_rows rs =
     (let all_none = list_all (\<lambda>r. payout r = None) rs
      in map (\<lambda>r. \<lparr> result = result r, gale_level = gale_level r,
                      row_payout = (case payout r of
                                      Some x \<Rightarrow> Some (Fin x)
                                    | None \<Rightarrow> if all_none then None else Some NaN) \<rparr>) rs)"

text \<open>
  \<open>rec.get("payout") or default_payout\<close>: \<open>None\<close> and a payout of zero are falsy,
  NaN is truthy.
\<close>

definition payout_or_default :: "pyfloat option \<Rightarrow> real \<Rightarrow> pyfloat" where
  "payout_or_default po dflt =
     (case po of
        None \<Rightarrow> Fin dflt
      | Some NaN \<Rightarrow> NaN
      | Some (Fin x) \<Rightarrow> if x = 0 then Fin dflt else Fin x)"

definition compute_profit_for_record ::
  "pylib \<Rightarrow> 'a row_scheme \<Rightarrow> real list \<Rightarrow> real \<Rightarrow> pyerr + pyfloat" where
  "compute_profit_for_record lib r stakes default_payout =
     (let p = payout_or_default (row_payout r) default_payout;
          res = py_upper lib (result r);
          level = min (int (gale_level r)) (int (length stakes) - 1)
      in if res = DOJI then Inr (Fin 0)
         else if res = WIN then
           (if level = 0 then
              (case py_index stakes 0 of Inl e \<Rightarrow> Inl e | Inr s0 \<Rightarrow> Inr (fmul s0 p))
            else
              (let lost = sum_list (slice_to stakes level) in
               case py_index stakes level of
                 Inl e \<Rightarrow> Inl e
               | Inr sl \<Rightarrow> Inr (fadd (- lost) (fmul sl p))))
         else if res = LOSS then Inr (Fin (- sum_list (slice_to stakes (level + 1))))
         else Inr (Fin 0))"

text \<open>
  \<open>round(x, 2)\<close> and \<open>Series.round(2)\<close> on a real number: to two decimals, a tie
  to the even digit. The theorems that evaluate it do so away from ties, where the
  rounding of the float is the rounding of the number.
\<close>

definition round2 :: "real \<Rightarrow> real" where
  "round2 x =
     (let y = x * 100; f = \<lfloor>y\<rfloor>; r = y - of_int f
      in of_int (if r < 1 / 2 then f else if 1 / 2 < r then f + 1
                 else if even f then f else f + 1) / 100)"

text \<open>The rows of \<open>df.groupby("hour")\<close>: hour, total, wins, win rate.\<close>

definition hours_of :: "('a v_rec_scheme) list \<Rightarrow> int list" where
  "hours_of rs = sort (remdups (List.map_filter hour rs))"

definition a_hourly_row :: "('a v_rec_scheme) list \<Rightarrow> int \<Rightarrow> int \<times> nat \<times> nat \<times> real" where
  "a_hourly_row rs h =
     (let grp = filter (\<lambda>r. hour r = Some h) rs;
          n = length grp;
          w = count_result WIN grp
      in (h, n, w, 100 * real w / real n))"

record summary =
  s_total_ops :: nat
  s_wins :: nat
  s_losses :: nat
  s_dojis :: nat
  s_win_rate :: real
  s_g0 :: nat
  s_g1 :: nat
  s_g2 :: nat
  s_hourly :: "(int \<times> nat \<times> nat \<times> real) list"
  s_total_profit :: real

text \<open>
  \<open>df.apply(lambda r: compute_profit_for_record(r.to_dict(), ...), axis=1)\<close> and
  \<open>profits.sum()\<close>, which skips the profits that are NaN.
\<close>

fun profits :: "pylib \<Rightarrow> ('a row_scheme) list \<Rightarrow> real list \<Rightarrow> real \<Rightarrow> pyerr + pyfloat list" where
  "profits lib [] stakes dflt = Inr []"
| "profits lib (r # rs) stakes dflt =
     (case compute_profit_for_record lib r stakes dflt of
        Inl e \<Rightarrow> Inl e
      | Inr x \<Rightarrow> (case profits lib rs stakes dflt of Inl e \<Rightarrow> Inl e | Inr xs \<Rightarrow> Inr (x # xs)))"

fun nansum :: "pyfloat list \<Rightarrow> real" where
  "nansum [] = 0"
| "nansum (Fin x # xs) = x + nansum xs"
| "nansum (NaN # xs) = nansum xs"

definition sum_profits :: "pylib \<Rightarrow> ('a v_rec_scheme) list \<Rightarrow> real list \<Rightarrow> real \<Rightarrow> pyerr + real" where
  "sum_profits lib rs stakes dflt =
     (case profits lib (frame_rows rs) stakes dflt of Inl e \<Rightarrow> Inl e | Inr xs \<Rightarrow> Inr (nansum xs))"

text \<open>
  \<open>summarize_resolved\<close>, without the lists of names it also returns. \<open>a_win_rate\<close> is
  the local \<open>win_rate\<close>; the summary holds it rounded.
\<close>

definition a_dojis :: "('a g_rec_scheme) list \<Rightarrow> nat" where
  "a_dojis rs =
     (if count_result DOJI rs \<noteq> 0 then count_result DOJI rs else count_result (asc ''Doji'') rs)"

definition a_win_rate :: "('a g_rec_scheme) list \<Rightarrow> real" where
  "a_win_rate rs =
     (let resolved_count = int (length rs) - int (a_dojis rs)
      in if resolved_count > 0 then 100 * real (count_result WIN rs) / real_of_int resolved_count
         else 0)"

definition count_level :: "nat \<Rightarrow> ('a g_rec_scheme) list \<Rightarrow> nat" where
  "count_level g rs = length (filter (\<lambda>r. gale_level r = g) rs)"

definition summarize_resolved ::
  "pylib \<Rightarrow> ('a v_rec_scheme) list \<Rightarrow> real list \<Rightarrow> real \<Rightarrow> pyerr + summary option" where
  "summarize_resolved lib resolved stakes default_payout =
     (if resolved = [] then Inr None
      else case sum_profits lib resolved stakes default_payout of
             Inl e \<Rightarrow> Inl e
           | Inr total_profit \<Rightarrow>
               Inr (Some \<lparr> s_total_ops = length resolved,
                            s_wins = count_result WIN resolved,
                            s_losses = count_result LOSS resolved,
                            s_dojis = a_dojis resolved,
                            s_win_rate = round2 (a_win_rate resolved),
                            s_g0 = count_level 0 resolved,
                            s_g1 = count_level 1 resolved,
                            s_g2 = count_level 2 resolved,
                            s_hourly = map (a_hourly_row resolved) (hours_of resolved),
                            s_total_profit = total_profit \<rparr>))"

section \<open>validacao\_horarios: the rate of an hour\<close>

text \<open>\<open>(WIN / (WIN + LOSS) * 100).fillna(0).round(2)\<close> on the records of one hour.\<close>

definition v_hour_win_rate :: "('a v_rec_scheme) list \<Rightarrow> int \<Rightarrow> real" where
  "v_hour_win_rate rs h =
     (let grp = filter (\<lambda>r. hour r = Some h) rs;
          w = count_result WIN grp; l = count_result LOSS grp
      in round2 (if w + l = 0 then 0 else real w / real (w + l) * 100))"

section \<open>qualidade\_sala: the rates of the room\<close>

definition safe_div :: "real \<Rightarrow> real \<Rightarrow> real" where
  "safe_div a b = (if b \<noteq> 0 then a / b else 0)"

definition count_level_result :: "nat \<Rightarrow> pystr \<Rightarrow> ('a g_rec_scheme) list \<Rightarrow> nat" where
  "count_level_result g s rs = length (filter (\<lambda>r. gale_level r = g \<and> result r = s) rs)"

definition win_rate_g_pct :: "nat \<Rightarrow> ('a g_rec_scheme) list \<Rightarrow> real" where
  "win_rate_g_pct g rs =
     (if count_level g rs > 0
      then round2 (safe_div (real (count_level_result g WIN rs)) (real (count_level g rs)) * 100)
      else 0)"

section \<open>analise\_gales: rates by level and pooled\<close>

definition rate_pct :: "nat \<Rightarrow> nat \<Rightarrow> real" where
  "rate_pct w l = (if w + l > 0 then real w / real (w + l) * 100 else 0)"

definition wr_g :: "nat \<Rightarrow> ('a g_rec_scheme) list \<Rightarrow> real" where
  "wr_g g rs = rate_pct (count_level_result g WIN rs) (count_level_result g LOSS rs)"

definition wr_com_g1 :: "('a g_rec_scheme) list \<Rightarrow> real" where
  "wr_com_g1 rs =
     (let ops_ate_g1 = filter (\<lambda>r. gale_level r \<le> 1) rs
      in rate_pct (count_result WIN ops_ate_g1) (count_result LOSS ops_ate_g1))"

definition wr_com_g1_g2 :: "('a g_rec_scheme) list \<Rightarrow> real" where
  "wr_com_g1_g2 rs = rate_pct (count_result WIN rs) (count_result LOSS rs)"

section \<open>performance\_paridades: volatility and tiers\<close>

datatype tier = SEM_DADOS | EXCELENTE | BOM | OK | REGULAR | PERIGOSO

definition calculate_volatility :: "nat \<Rightarrow> nat \<Rightarrow> real" where
  "calculate_volatility w l =
     (let n = w + l in if n = 0 then 0 else real l / real n * 100)"

definition classify_pair :: "real \<Rightarrow> real \<Rightarrow> nat \<Rightarrow> tier" where
  "classify_pair win_rate_pct volatility_pct n =
     (if n < 5 then SEM_DADOS
      else if win_rate_pct \<ge> 90 \<and> volatility_pct \<le> 15 then EXCELENTE
      else if win_rate_pct \<ge> 85 \<and> volatility_pct \<le> 18 then BOM
      else if win_rate_pct \<ge> 80 \<and> volatility_pct \<le> 25 then OK
      else if win_rate_pct \<ge> 75 then REGULAR
      else PERIGOSO)"

text \<open>
  The row of one instrument in \<open>render_from_json\<close>: the group is the records of the
  pair; the rate and the volatility reach \<open>_classify_pair\<close> after \<open>Series.round(2)\<close>.
  On floats that rounding gives a nearest hundredth, and which of the two a value
  half-way between them goes to depends on the float that stands for the value. The
  rounding is the parameter \<open>rnd\<close> of the row, and \<open>nearest2\<close> says what the theorems
  assume of it; \<open>round2\<close> is one such rounding.
\<close>

definition nearest2 :: "(real \<Rightarrow> real) \<Rightarrow> bool" where
  "nearest2 rnd \<longleftrightarrow> (\<forall>x. (\<exists>k::int. rnd x = of_int k / 100) \<and> \<bar>rnd x - x\<bar> \<le> 1 / 200)"

definition pair_group :: "pystr \<Rightarrow> ('a v_rec_scheme) list \<Rightarrow> ('a v_rec_scheme) list" where
  "pair_group p rs = filter (\<lambda>r. pair r = p) rs"

definition pair_win_rate_pct :: "(real \<Rightarrow> real) \<Rightarrow> ('a g_rec_scheme) list \<Rightarrow> real" where
  "pair_win_rate_pct rnd grp =
     (let w = count_result WIN grp; l = count_result LOSS grp
      in rnd (if w + l = 0 then 0 else real w / real (w + l) * 100))"

definition pair_volatility_pct :: "(real \<Rightarrow> real) \<Rightarrow> ('a g_rec_scheme) list \<Rightarrow> real" where
  "pair_volatility_pct rnd grp =
     rnd (calculate_volatility (count_result WIN grp) (count_result LOSS grp))"

definition pair_classification :: "(real \<Rightarrow> real) \<Rightarrow> ('a g_rec_scheme) list \<Rightarrow> tier" where
  "pair_classification rnd grp =
     classify_pair (pair_win_rate_pct rnd grp) (pair_volatility_pct rnd grp) (length grp)"

section \<open>A runtime for the examples\<close>

text \<open>
  One runtime, to evaluate the functions on concrete messages: CPython 3.11 with UTC as
  the local time zone. Its tables are CPython's on the code points below 256, on the
  decimal digits of every script and on the four other code points that
  \<open>re.IGNORECASE\<close> takes for an ASCII letter; every other code point is taken for a
  symbol without case. \<open>strptime\<close> follows \<open>_strptime.py\<close> on the directives of
  \<open>FORMATS\<close>, and \<open>fromisoformat\<close> follows the C implementation of
  \<open>datetime.fromisoformat\<close>, which reads the UTF-8 bytes of the string.
\<close>

definition latin_letter :: "cp \<Rightarrow> bool" where
  "latin_letter c \<longleftrightarrow> 192 \<le> c \<and> c \<le> 255 \<and> c \<noteq> 215 \<and> c \<noteq> 247"

text \<open>The decimal digits beyond ASCII come in blocks of ten, from zero to nine.\<close>

definition digit_blocks :: "cp list" where
  "digit_blocks =
     [1632, 1776, 1984, 2406, 2534, 2662, 2790, 2918, 3046, 3174, 3302, 3430, 3558, 3664,
      3792, 3872, 4160, 4240, 6112, 6160, 6470, 6608, 6784, 6800, 6992, 7088, 7232, 7248,
      42528, 43216, 43264, 43472, 43504, 43600, 44016, 65296, 66720, 68912, 69734, 69872,
      69942, 70096, 70384, 70736, 70864, 71248, 71360, 71472, 71904, 72016, 72784, 73040,
      73120, 92768, 92864, 93008, 120782, 120792, 120802, 120812, 120822, 123200, 123632,
      125264, 130032]"

definition ex_digit :: "cp \<Rightarrow> int option" where
  "ex_digit c =
     (case find (\<lambda>b. b \<le> c \<and> c < b + 10) digit_blocks of
        None \<Rightarrow> None
      | Some b \<Rightarrow> Some (c - b))"

definition ex_word :: "cp \<Rightarrow> bool" where
  "ex_word c \<longleftrightarrow>
     latin_letter c \<or> c = 170 \<or> c = 178 \<or> c = 179 \<or> c = 181 \<or> c = 185 \<or> c = 186
     \<or> (188 \<le> c \<and> c \<le> 190) \<or> ex_digit c \<noteq> None"

definition ex_variants :: "cp \<Rightarrow> cp list" where
  "ex_variants c =
     (if latin_letter c \<and> c \<le> 222 then [c + 32]
      else if latin_letter c \<and> 224 \<le> c \<and> c \<le> 254 then [c - 32]
      else if c = 255 then [376]
      else if c = 181 then [924, 956]
      else if c = 383 then [115, 83]
      else if c = 8490 then [107, 75]
      else if c = 304 \<or> c = 305 then [105, 73]
      else [])"

definition ex_upper :: "cp \<Rightarrow> pystr" where
  "ex_upper c =
     (if latin_letter c \<and> 224 \<le> c \<and> c \<le> 254 then [c - 32]
      else if c = 223 then [83, 83]
      else if c = 255 then [376]
      else if c = 181 then [924]
      else if c = 383 then [83]
      else if c = 305 then [73]
      else [c])"

fun nat_digits :: "nat \<Rightarrow> pystr" where
  "nat_digits n = (if n < 10 then [48 + int n] else nat_digits (n div 10) @ [48 + int (n mod 10)])"

text \<open>
  \<open>str\<close> of \<open>None\<close>, of a boolean and of an integer; any other value that is not a
  string prints as a question mark here, and no example below prints one.
\<close>

definition ex_repr :: "pyval \<Rightarrow> pystr" where
  "ex_repr v =
     (case v of
        VNone \<Rightarrow> asc ''None''
      | VBool b \<Rightarrow> (if b then asc ''True'' else asc ''False'')
      | VInt n \<Rightarrow> (if n < 0 then 45 # nat_digits (nat (- n)) else nat_digits (nat n))
      | VStr w \<Rightarrow> w
      | _ \<Rightarrow> asc ''?'')"

text \<open>The tables of the runtime; the two parsers come below.\<close>

definition lib_tables :: pylib where
  "lib_tables = \<lparr> ext_digit = ex_digit, ext_word = ex_word, ext_variants = ex_variants,
                   ext_upper = ex_upper, utcoff = (\<lambda>t. 0),
                   strptime = (\<lambda>s fmt. Inl ValueError),
                   fromisoformat = (\<lambda>s. Inl ValueError), py_repr = ex_repr \<rparr>"

subsection \<open>strptime\<close>

text \<open>
  \<open>_strptime\<close> turns the format into a regular expression, matches it at the start of
  the string under \<open>re.IGNORECASE\<close>, wants the match to end where the string ends, and
  builds the date from the groups. The expressions of the directives:
  \<open>%d\<close> is \<open>3[0-1]|[1-2]\d|0[1-9]|[1-9]| [1-9]\<close>, \<open>%H\<close> is \<open>2[0-3]|[0-1]\d|\d\<close>,
  \<open>%m\<close> is \<open>1[0-2]|0[1-9]|[1-9]\<close>, \<open>%M\<close> is \<open>[0-5]\d|\d\<close>,
  \<open>%S\<close> is \<open>6[0-1]|[0-5]\d|\d\<close> and \<open>%Y\<close> is \<open>\d\d\d\d\<close>. Any other directive is
  a ValueError here; \<open>FORMATS\<close> has none.
\<close>

definition dg :: "int \<Rightarrow> int \<Rightarrow> rx" where
  "dg lo hi = Chr (\<lambda>c. 48 + lo \<le> c \<and> c \<le> 48 + hi)"

definition directive_rx :: "pylib \<Rightarrow> cp \<Rightarrow> rx option" where
  "directive_rx lib d =
     (let D = Chr (is_digit lib) in
      if d = 100 then
        Some (Grp ''d'' (Alt (Seq (dg 3 3) (dg 0 1)) (Alt (Seq (dg 1 2) D)
               (Alt (Seq (dg 0 0) (dg 1 9)) (Alt (dg 1 9) (Seq (Chr (\<lambda>c. c = 32)) (dg 1 9)))))))
      else if d = 72 then Some (Grp ''H'' (Alt (Seq (dg 2 2) (dg 0 3)) (Alt (Seq (dg 0 1) D) D)))
      else if d = 109 then
        Some (Grp ''m'' (Alt (Seq (dg 1 1) (dg 0 2)) (Alt (Seq (dg 0 0) (dg 1 9)) (dg 1 9))))
      else if d = 77 then Some (Grp ''M'' (Alt (Seq (dg 0 5) D) D))
      else if d = 83 then Some (Grp ''S'' (Alt (Seq (dg 6 6) (dg 0 1)) (Alt (Seq (dg 0 5) D) D)))
      else if d = 89 then Some (Grp ''Y'' (seqs [D, D, D, D]))
      else if d = 37 then Some (Chr (\<lambda>c. c = 37))
      else None)"

text \<open>
  The expression of a format: a run of white space stands for \<open>\s+\<close>, a directive for
  its expression, any other character for itself. \<open>aw\<close> says that the character
  before was white space.
\<close>

fun fmt_rx :: "pylib \<Rightarrow> bool \<Rightarrow> pystr \<Rightarrow> rx option" where
  "fmt_rx lib aw [] = Some Eps"
| "fmt_rx lib aw [c] =
     (if isspace c then (if aw then Some Eps else Some (plus_rx isspace))
      else if c = 37 then None
      else Some (Chr (ci lib (\<lambda>x. x = c))))"
| "fmt_rx lib aw (c # d # cs) =
     (if isspace c then
        (if aw then fmt_rx lib True (d # cs)
         else map_option (Seq (plus_rx isspace)) (fmt_rx lib True (d # cs)))
      else if c = 37 then
        (case directive_rx lib d of
           None \<Rightarrow> None
         | Some r \<Rightarrow> map_option (Seq r) (fmt_rx lib False cs))
      else map_option (Seq (Chr (ci lib (\<lambda>x. x = c)))) (fmt_rx lib False (d # cs)))"

definition days_in_month :: "int \<Rightarrow> int \<Rightarrow> int" where
  "days_in_month y m =
     (if m = 2 then (if y mod 4 = 0 \<and> (y mod 100 \<noteq> 0 \<or> y mod 400 = 0) then 29 else 28)
      else if m = 4 \<or> m = 6 \<or> m = 9 \<or> m = 11 then 30 else 31)"


definition valid_date :: "int \<Rightarrow> int \<Rightarrow> int \<Rightarrow> bool" where
  "valid_date y m d \<longleftrightarrow>
     1 \<le> y \<and> y \<le> 9999 \<and> 1 \<le> m \<and> m \<le> 12 \<and> 1 \<le> d \<and> d \<le> days_in_month y m"

text \<open>\<open>int(found_dict[g])\<close>, or the default of a directive that the format does not have.\<close>

definition fld :: "pylib \<Rightarrow> (string \<times> pystr) list \<Rightarrow> string \<Rightarrow> int \<Rightarrow> int" where
  "fld lib caps g dflt =
     (case map_of caps g of
        None \<Rightarrow> dflt
      | Some w \<Rightarrow> (case py_int lib (strip w) of None \<Rightarrow> dflt | Some v \<Rightarrow> v))"

definition ex_strptime :: "pylib \<Rightarrow> pystr \<Rightarrow> pystr \<Rightarrow> pyerr + date" where
  "ex_strptime lib s fmt =
     (case fmt_rx lib False fmt of
        None \<Rightarrow> Inl ValueError
      | Some r \<Rightarrow>
          (case run r (s, []) of
             [] \<Rightarrow> Inl ValueError
           | st # _ \<Rightarrow>
               if fst st \<noteq> [] then Inl ValueError
               else
                 let y = fld lib (snd st) ''Y'' 1900;
                     m = fld lib (snd st) ''m'' 1;
                     d = fld lib (snd st) ''d'' 1;
                     sec = fld lib (snd st) ''S'' 0
                 in if valid_date y m d \<and> sec \<le> 59 then Inr (y, m, d) else Inl ValueError))"

subsection \<open>fromisoformat\<close>

definition utf8 :: "cp \<Rightarrow> int list" where
  "utf8 c =
     (if c < 128 then [c]
      else if c < 2048 then [192 + c div 64, 128 + c mod 64]
      else if c < 65536 then [224 + c div 4096, 128 + c div 64 mod 64, 128 + c mod 64]
      else [240 + c div 262144, 128 + c div 4096 mod 64, 128 + c div 64 mod 64, 128 + c mod 64])"

text \<open>The buffer ends in a zero byte, which is what a read at or after its end gives.\<close>

definition byte_at :: "int list \<Rightarrow> nat \<Rightarrow> int" where
  "byte_at bs i = (if i < length bs then bs ! i else 0)"

definition hd0 :: "int list \<Rightarrow> int" where
  "hd0 bs = (case bs of [] \<Rightarrow> 0 | b # _ \<Rightarrow> b)"

definition is_ascii_digit :: "int \<Rightarrow> bool" where
  "is_ascii_digit b \<longleftrightarrow> 48 \<le> b \<and> b \<le> 57"

text \<open>\<open>parse_digits\<close>: the value of the next \<open>k\<close> bytes, all ASCII digits, and the rest.\<close>

fun parse_digits :: "nat \<Rightarrow> int list \<Rightarrow> int \<Rightarrow> (int \<times> int list) option" where
  "parse_digits 0 bs acc = Some (acc, bs)"
| "parse_digits (Suc k) [] acc = None"
| "parse_digits (Suc k) (b # bs) acc =
     (if is_ascii_digit b then parse_digits k bs (10 * acc + (b - 48)) else None)"

text \<open>
  \<open>_find_isoformat_datetime_separator\<close>: where the date ends, from the bytes at 4, 5,
  8 and 10 and the length; \<open>None\<close> is its -1.
\<close>

definition find_separator :: "int list \<Rightarrow> nat option" where
  "find_separator bs =
     (let n = length bs in
      if n = 7 then Some 7
      else if byte_at bs 4 = 45 then
        (if byte_at bs 5 = 87 then
           (if n < 8 then None
            else if 8 < n \<and> byte_at bs 8 = 45 then
              (if n = 9 then None
               else if 10 < n \<and> is_ascii_digit (byte_at bs 10) then Some 8
               else Some 10)
            else Some 8)
         else Some 10)
      else if byte_at bs 4 = 87 then
        (let idx = 7 + length (takeWhile is_ascii_digit (drop 7 bs))
         in if idx < 9 then Some idx else if even idx then Some 7 else Some 8)
      else Some 8)"

text \<open>The integer division and remainder of C, and the calendar helpers that use them.\<close>

definition tdiv :: "int \<Rightarrow> int \<Rightarrow> int" where
  "tdiv a b = (if a < 0 then - ((- a) div b) else a div b)"

definition tmod :: "int \<Rightarrow> int \<Rightarrow> int" where
  "tmod a b = a - b * tdiv a b"

definition is_leap :: "int \<Rightarrow> bool" where
  "is_leap y \<longleftrightarrow> y mod 4 = 0 \<and> (y mod 100 \<noteq> 0 \<or> y mod 400 = 0)"

definition days_before_year :: "int \<Rightarrow> int" where
  "days_before_year y = (let z = y - 1 in z * 365 + tdiv z 4 - tdiv z 100 + tdiv z 400)"

definition iso_week1_monday :: "int \<Rightarrow> int" where
  "iso_week1_monday y =
     (let first_day = days_before_year y + 1;
          first_weekday = tmod (first_day + 6) 7;
          week1_monday = first_day - first_weekday
      in if first_weekday > 3 then week1_monday + 7 else week1_monday)"

text \<open>
  \<open>iso_to_ymd\<close>: the date of a week and a day of an ISO year. Day 1 of \<open>datetime\<close> is
  0001-01-01, which is day -719162 of \<open>civil_from_days\<close>.
\<close>

definition iso_to_ymd :: "int \<Rightarrow> int \<Rightarrow> int \<Rightarrow> date option" where
  "iso_to_ymd y w d =
     (let first_weekday = tmod (days_before_year y + 1 + 6) 7 in
      if (w \<le> 0 \<or> 53 \<le> w)
         \<and> \<not> (w = 53 \<and> (first_weekday = 3 \<or> (first_weekday = 2 \<and> is_leap y))) then None
      else if d \<le> 0 \<or> 8 \<le> d then None
      else Some (civil_from_days (iso_week1_monday y + (w - 1) * 7 + d - 1 - 719163)))"

text \<open>\<open>parse_isoformat_date\<close> on the buffer, \<open>n\<close> being the place of the separator.\<close>

definition parse_isoformat_date :: "int list \<Rightarrow> nat \<Rightarrow> date option" where
  "parse_isoformat_date bs n =
     (case parse_digits 4 bs 0 of
        None \<Rightarrow> None
      | Some (year, r1) \<Rightarrow>
          let sep = (hd0 r1 = 45); r2 = (if sep then drop 1 r1 else r1) in
          if hd0 r2 = 87 then
            (case parse_digits 2 (drop 1 r2) 0 of
               None \<Rightarrow> None
             | Some (week, r3) \<Rightarrow>
                 if length bs - length r3 < n then
                   (if sep \<and> hd0 r3 \<noteq> 45 then None
                    else case parse_digits 1 (if sep then drop 1 r3 else r3) 0 of
                           None \<Rightarrow> None
                         | Some (day, r4) \<Rightarrow> iso_to_ymd year week day)
                 else iso_to_ymd year week 1)
          else
            (case parse_digits 2 r2 0 of
               None \<Rightarrow> None
             | Some (month, r3) \<Rightarrow>
                 if sep \<and> hd0 r3 \<noteq> 45 then None
                 else case parse_digits 2 (if sep then drop 1 r3 else r3) 0 of
                        None \<Rightarrow> None
                      | Some (day, r4) \<Rightarrow> Some (year, month, day)))"

text \<open>
  \<open>parse_hh_mm_ss_ff\<close> on the buffer \<open>t\<close> from the start of a part that is \<open>pend\<close>
  bytes long: up to three fields of two digits, with colons between them or without,
  and a fraction. The result is \<open>None\<close> for a negative return code, else whether the
  code is 1 (something is left) and the hour, minute, second and microsecond.
\<close>

definition pad3 :: "int list \<Rightarrow> int list" where
  "pad3 vals = take 3 (vals @ [0, 0, 0])"

definition parse_fraction :: "int list \<Rightarrow> nat \<Rightarrow> nat \<Rightarrow> int list \<Rightarrow> (bool \<times> int list) option" where
  "parse_fraction t pend p vals =
     (let to_parse = min (pend - p) 6 in
      case parse_digits to_parse (drop p t) 0 of
        None \<Rightarrow> None
      | Some (us, rest) \<Rightarrow>
          Some (hd0 (dropWhile is_ascii_digit rest) \<noteq> 0, pad3 vals @ [us * 10 ^ (6 - to_parse)]))"

fun hms_loop ::
  "nat \<Rightarrow> int list \<Rightarrow> nat \<Rightarrow> nat \<Rightarrow> bool \<Rightarrow> int list \<Rightarrow> (bool \<times> int list) option" where
  "hms_loop 0 t pend p has_sep vals = parse_fraction t pend p vals"
| "hms_loop (Suc k) t pend p has_sep vals =
     (case parse_digits 2 (drop p t) 0 of
        None \<Rightarrow> None
      | Some (v, rest) \<Rightarrow>
          let c = hd0 rest;
              p' = p + 3;
              has_sep' = (if vals = [] then c = 58 else has_sep);
              vals' = vals @ [v]
          in if pend \<le> p' then Some (c \<noteq> 0, pad3 vals' @ [0])
             else if has_sep' \<and> c = 58 then hms_loop k t pend p' has_sep' vals'
             else if c = 46 \<or> c = 44 then parse_fraction t pend p' vals'
             else if \<not> has_sep' then hms_loop k t pend (p' - 1) has_sep' vals'
             else None)"

definition parse_hh_mm_ss_ff :: "int list \<Rightarrow> nat \<Rightarrow> (bool \<times> int list) option" where
  "parse_hh_mm_ss_ff t pend = hms_loop 3 t pend 0 True []"

text \<open>
  \<open>parse_isoformat_time\<close> on the buffer from the start of the time: the fields of the
  time and, when there is one, the offset in microseconds.
\<close>

definition is_tz_mark :: "int \<Rightarrow> bool" where
  "is_tz_mark b \<longleftrightarrow> b = 90 \<or> b = 43 \<or> b = 45"

definition parse_isoformat_time :: "int list \<Rightarrow> (int list \<times> int option) option" where
  "parse_isoformat_time t =
     (let n = length t;
          tz = (if list_ex is_tz_mark t then length (takeWhile (\<lambda>b. \<not> is_tz_mark b) t)
                else max n 1)
      in case parse_hh_mm_ss_ff t tz of
           None \<Rightarrow> None
         | Some (lft, vals) \<Rightarrow>
             if tz = n then (if lft then None else Some (vals, None))
             else if byte_at t tz = 90 then
               (if byte_at t (tz + 1) \<noteq> 0 then None else Some (vals, Some 0))
             else
               (let sign = (if byte_at t tz = 45 then - 1 else 1); u = drop (tz + 1) t in
                case parse_hh_mm_ss_ff u (length u) of
                  None \<Rightarrow> None
                | Some (lft2, tv) \<Rightarrow>
                    if lft2 then None
                    else Some (vals,
                               Some (sign * ((tv ! 0 * 3600 + tv ! 1 * 60 + tv ! 2) * 1000000
                                             + tv ! 3)))))"

text \<open>
  A surrogate is let through as the separator only, at 7, 8 or 10, where it is taken
  for a T; anywhere else the string has no UTF-8 form.
\<close>

definition is_surrogate :: "cp \<Rightarrow> bool" where
  "is_surrogate c \<longleftrightarrow> 55296 \<le> c \<and> c \<le> 57343"

definition sanitize :: "pystr \<Rightarrow> pystr" where
  "sanitize s =
     (case find (\<lambda>i. i < length s \<and> is_surrogate (s ! i)) [7, 8, 10] of
        None \<Rightarrow> s
      | Some i \<Rightarrow> s[i := 84])"

definition sep_width :: "int \<Rightarrow> nat" where
  "sep_width b = (if b < 128 then 1 else if 240 \<le> b then 4 else if 224 \<le> b then 3 else 2)"

definition valid_time :: "int list \<Rightarrow> bool" where
  "valid_time vals \<longleftrightarrow> vals ! 0 \<le> 23 \<and> vals ! 1 \<le> 59 \<and> vals ! 2 \<le> 59"

text \<open>A time zone is an offset of less than a day.\<close>

definition valid_tz :: "int option \<Rightarrow> bool" where
  "valid_tz tz \<longleftrightarrow>
     (case tz of None \<Rightarrow> True | Some us \<Rightarrow> - 86400000000 < us \<and> us < 86400000000)"

definition ex_fromisoformat :: "pystr \<Rightarrow> pyerr + date" where
  "ex_fromisoformat s =
     (if length s < 7 then Inl ValueError
      else
        let s1 = sanitize s in
        if list_ex is_surrogate s1 then Inl ValueError
        else
          let bs = concat (map utf8 s1) in
          case find_separator bs of
            None \<Rightarrow> Inl ValueError
          | Some sep \<Rightarrow>
              (case parse_isoformat_date bs sep of
                 None \<Rightarrow> Inl ValueError
               | Some (y, m, d) \<Rightarrow>
                   (case (if sep < length bs
                          then parse_isoformat_time (drop (sep + sep_width (byte_at bs sep)) bs)
                          else Some ([0, 0, 0, 0], None)) of
                      None \<Rightarrow> Inl ValueError
                    | Some (vals, tz) \<Rightarrow>
                        if valid_date y m d \<and> valid_time vals \<and> valid_tz tz then Inr (y, m, d)
                        else Inl ValueError)))"

definition lib0 :: pylib where
  "lib0 = lib_tables \<lparr> strptime := ex_strptime lib_tables, fromisoformat := ex_fromisoformat \<rparr>"

section \<open>Shared lemmas\<close>

lemma results_distinct:
  "WIN \<noteq> LOSS" "WIN \<noteq> DOJI" "LOSS \<noteq> DOJI" "LOSS \<noteq> WIN" "DOJI \<noteq> WIN" "DOJI \<noteq> LOSS"
  by (simp_all add: WIN_def LOSS_def DOJI_def asc_def)

lemma py_index_ok: "0 \<le> i \<Longrightarrow> i < int (length xs) \<Longrightarrow> py_index xs i = Inr (xs ! nat i)"
  by (simp add: py_index_def)

lemma count_result_none: "\<forall>r \<in> set rs. result r \<noteq> s \<Longrightarrow> count_result s rs = 0"
  by (induction rs) (simp_all add: count_result_def)

text \<open>With a ladder of at least one stake no index of \<open>calculate_profit\<close> is out of range.\<close>

lemma calculate_profit_total:
  assumes "stakes \<noteq> []"
  shows "\<exists>x. calculate_profit res g stakes p = Inr x"
proof -
  let ?level = "min (int g) (int (length stakes) - 1)"
  have l: "0 \<le> ?level" "?level < int (length stakes)" using assms by simp_all
  have a: "py_index stakes ?level = Inr (stakes ! nat ?level)"
    by (rule py_index_ok[OF l])
  have b: "py_index stakes 0 = Inr (stakes ! 0)"
    using assms by (simp add: py_index_def)
  show ?thesis
    unfolding calculate_profit_def Let_def using a b by simp
qed

text \<open>The loop appends one balance per record and never touches the earlier ones.\<close>

lemma equity_loop_shape:
  assumes "stakes \<noteq> []"
  shows "\<exists>eq. equity_loop rs stakes p equity current = Inr eq
           \<and> length eq = length equity + length rs \<and> take (length equity) eq = equity"
proof (induction rs arbitrary: equity current)
  case Nil
  then show ?case by simp
next
  case (Cons r rs)
  obtain x where x: "calculate_profit (result r) (gale_level r) stakes p = Inr x"
    using calculate_profit_total[OF assms] by blast
  obtain eq where eq: "equity_loop rs stakes p (equity @ [current + x]) (current + x) = Inr eq"
     "length eq = length (equity @ [current + x]) + length rs"
     "take (length (equity @ [current + x])) eq = equity @ [current + x]"
    using Cons.IH by blast
  have "take (length equity) eq = take (length equity) (take (length (equity @ [current + x])) eq)"
    by (simp add: min_def)
  also have "\<dots> = equity" using eq(3) by simp
  finally show ?case using x eq by simp
qed

lemma foldl_dd_max_dd_mono: "max_dd s \<le> max_dd (foldl dd_step s curve)"
proof (induction curve arbitrary: s)
  case Nil
  then show ?case by simp
next
  case (Cons b bs)
  have "max_dd s \<le> max_dd (dd_step s b)" by (simp add: dd_step_def Let_def)
  also have "\<dots> \<le> max_dd (foldl dd_step (dd_step s b) bs)" by (rule Cons.IH)
  finally show ?case by simp
qed

lemma foldl_dd_min_balance_mono: "min_balance (foldl dd_step s curve) \<le> min_balance s"
proof (induction curve arbitrary: s)
  case Nil
  then show ?case by simp
next
  case (Cons b bs)
  have "min_balance (foldl dd_step (dd_step s b) bs) \<le> min_balance (dd_step s b)"
    by (rule Cons.IH)
  also have "\<dots> \<le> min_balance s" by (simp add: dd_step_def Let_def)
  finally show ?case by simp
qed

lemma py_upper_results:
  "py_upper lib WIN = WIN" "py_upper lib LOSS = LOSS" "py_upper lib DOJI = DOJI"
  by (simp_all add: py_upper_def upper_cp_def WIN_def LOSS_def DOJI_def asc_def)

lemma rate_pct_nonneg: "0 \<le> rate_pct w l"
  by (simp add: rate_pct_def)

lemma rate_pct_le_100: "rate_pct w l \<le> 100"
  by (simp add: rate_pct_def divide_le_eq)

lemma mediant_pct:
  fixes a c B D :: real
  assumes B: "0 < B" and D: "0 < D" and le: "a / B * 100 \<le> c / D * 100"
  shows "a / B * 100 \<le> (a + c) / (B + D) * 100"
proof -
  have "a * D \<le> c * B"
    using le B D by (simp add: field_simps)
  then have "a * (B + D) \<le> (a + c) * B"
    by (simp add: algebra_simps)
  then show ?thesis
    using B D by (simp add: field_simps)
qed

text \<open>Pooling a block whose rate is not below the rate so far cannot lower the rate.\<close>

lemma rate_pct_pool:
  assumes "c + d = 0 \<or> rate_pct a b \<le> rate_pct c d"
  shows "rate_pct a b \<le> rate_pct (a + c) (b + d)"
proof (cases "a + b = 0")
  case True
  then show ?thesis by (simp add: rate_pct_def)
next
  case ab: False
  show ?thesis
  proof (cases "c + d = 0")
    case True
    then show ?thesis by simp
  next
    case cd: False
    with assms have le: "rate_pct a b \<le> rate_pct c d" by blast
    have "0 < a + b" "0 < c + d" using ab cd by simp_all
    then have pos: "0 < real (a + b)" "0 < real (c + d)" by (simp_all only: of_nat_0_less_iff)
    have l2: "real a / real (a + b) * 100 \<le> real c / real (c + d) * 100"
    proof -
      have "rate_pct a b = real a / real (a + b) * 100" using ab unfolding rate_pct_def by simp
      moreover have "rate_pct c d = real c / real (c + d) * 100" using cd unfolding rate_pct_def by simp
      ultimately show ?thesis using le by (simp only:)
    qed
    have "real a / real (a + b) * 100 \<le> (real a + real c) / (real (a + b) + real (c + d)) * 100"
      by (rule mediant_pct[OF pos l2])
    moreover have "real (a + c) = real a + real c" by simp
    moreover have "real (a + c + (b + d)) = real (a + b) + real (c + d)" by simp
    moreover have "rate_pct a b = real a / real (a + b) * 100"
      using ab unfolding rate_pct_def by simp
    moreover have "rate_pct (a + c) (b + d) = real (a + c) / real (a + c + (b + d)) * 100"
      using ab unfolding rate_pct_def by simp
    ultimately show ?thesis by (simp only:)
  qed
qed

lemma count_level_le1:
  "count_result s (filter (\<lambda>r. gale_level r \<le> 1) rs)
     = count_level_result 0 s rs + count_level_result 1 s rs"
  by (induction rs) (auto simp: count_result_def count_level_result_def)

lemma count_split_beyond:
  "count_result s rs
     = count_result s (filter (\<lambda>r. gale_level r \<le> 1) rs)
       + count_result s (filter (\<lambda>r. 1 < gale_level r) rs)"
  by (induction rs) (auto simp: count_result_def)

section \<open>The equity curve and the drawdown\<close>

text \<open>
  Claim C5 as stated fails on the empty ladder: the clamp gives the level -1, the stake
  of a WIN is read at that index, and \<open>simulate_equity_curve\<close> raises IndexError
  instead of returning a curve.
\<close>

theorem C5_counterexample:
  "simulate_equity_curve [\<lparr> result = WIN, gale_level = 0 \<rparr>] capital_inicial [] payout_minimo
     = Inl IndexError"
  using results_distinct
  by (simp add: simulate_equity_curve_def calculate_profit_def py_index_def slice_to_def)

text \<open>
  Claim C5, amended. For every record sequence, initial capital \<open>c\<close>, payout and stake
  ladder with at least one stake (the ladder of \<open>render_from_json\<close> has three),
  \<open>simulate_equity_curve\<close> returns a curve with one point per record after the initial
  one, whose first element is \<open>c\<close>; the forward pass of the drawdown loop over it ends
  with a maximum drawdown that is not negative and a minimum balance that is at most
  \<open>c\<close>.
\<close>

theorem C5_equity_curve_drawdown:
  assumes "stakes \<noteq> []"
  shows "\<exists>curve. simulate_equity_curve records c stakes p = Inr curve
           \<and> length curve = length records + 1
           \<and> hd curve = c
           \<and> 0 \<le> max_dd (drawdown c curve)
           \<and> min_balance (drawdown c curve) \<le> c"
proof -
  obtain curve where cv: "equity_loop records stakes p [c] c = Inr curve"
      "length curve = length [c] + length records" "take (length [c]) curve = [c]"
    using equity_loop_shape[OF assms, of records p "[c]" c] by blast
  have "hd curve = c" using cv(3) by (cases curve) auto
  moreover have "0 \<le> max_dd (drawdown c curve)"
    using foldl_dd_max_dd_mono[of "\<lparr> peak = c, max_dd = 0, max_dd_pct = 0, min_balance = c \<rparr>" curve]
    by (simp add: drawdown_def)
  moreover have "min_balance (drawdown c curve) \<le> c"
    using foldl_dd_min_balance_mono[of "\<lparr> peak = c, max_dd = 0, max_dd_pct = 0, min_balance = c \<rparr>" curve]
    by (simp add: drawdown_def)
  ultimately show ?thesis using cv by (simp add: simulate_equity_curve_def)
qed

text \<open>The ladder of the repository, a loss at gale 2 and a win at the first entry.\<close>

theorem C5_witness:
  "stakes_c1 \<noteq> []
   \<and> (\<exists>curve. simulate_equity_curve
                 [\<lparr> result = LOSS, gale_level = 2 \<rparr>, \<lparr> result = WIN, gale_level = 0 \<rparr>]
                 capital_inicial stakes_c1 payout_minimo = Inr curve
           \<and> length curve = 3
           \<and> hd curve = capital_inicial
           \<and> 0 \<le> max_dd (drawdown capital_inicial curve)
           \<and> min_balance (drawdown capital_inicial curve) \<le> capital_inicial)"
proof -
  have ne: "stakes_c1 \<noteq> []" by (simp add: stakes_c1_def)
  show ?thesis
    using ne C5_equity_curve_drawdown[OF ne,
        of "[\<lparr> result = LOSS, gale_level = 2 \<rparr>, \<lparr> result = WIN, gale_level = 0 \<rparr>]"
           capital_inicial payout_minimo]
    by (auto simp: numeral_3_eq_3)
qed

section \<open>A room of draws\<close>

text \<open>
  Claim C10. For every non-empty record sequence whose results are all DOJI, the risk
  calculation of \<open>gestao_risco\<close> does not take the empty-frame exit: it reports win
  rate 0, loss rate 1 and a probability of 100 for each of the loss streaks of length
  2, 3, 4 and 5.
\<close>

theorem C10_all_doji:
  assumes ne: "records \<noteq> []" and dj: "\<forall>r \<in> set records. result r = DOJI"
  shows "\<exists>rep. risk_calc records = Inr (Some rep)
           \<and> win_rate rep = 0 \<and> loss_rate rep = 1
           \<and> prob_2_loss rep = 100 \<and> prob_3_loss rep = 100
           \<and> prob_4_loss rep = 100 \<and> prob_5_loss rep = 100"
proof -
  have w: "count_result WIN records = 0"
    using dj results_distinct by (intro count_result_none) auto
  have l: "count_result LOSS records = 0"
    using dj results_distinct by (intro count_result_none) auto
  have "stakes_c1 \<noteq> []" by (simp add: stakes_c1_def)
  then obtain curve where
    c: "simulate_equity_curve records capital_inicial stakes_c1 payout_minimo = Inr curve"
    using equity_loop_shape[of stakes_c1 records payout_minimo "[capital_inicial]" capital_inicial]
    by (auto simp: simulate_equity_curve_def)
  show ?thesis
    using ne w l c by (simp add: risk_calc_def)
qed

theorem C10_witness:
  "[\<lparr> result = DOJI, gale_level = 0 \<rparr>] \<noteq> []
   \<and> (\<exists>rep. risk_calc [\<lparr> result = DOJI, gale_level = 0 \<rparr>] = Inr (Some rep)
           \<and> win_rate rep = 0 \<and> loss_rate rep = 1
           \<and> prob_2_loss rep = 100 \<and> prob_3_loss rep = 100
           \<and> prob_4_loss rep = 100 \<and> prob_5_loss rep = 100)"
  using C10_all_doji[of "[\<lparr> result = DOJI, gale_level = 0 \<rparr>]"] by simp

section \<open>The tiers of an instrument\<close>

lemma round2_nearest2: "nearest2 round2"
proof -
  have "(\<exists>k::int. round2 x = of_int k / 100) \<and> \<bar>round2 x - x\<bar> \<le> 1 / 200" for x
  proof -
    define y where "y = x * 100"
    define f where "f = \<lfloor>y\<rfloor>"
    define r where "r = y - of_int f"
    define k where "k = (if r < 1 / 2 then f else if 1 / 2 < r then f + 1
                 else if even f then f else f + 1)"
    have rk: "round2 x = of_int k / 100"
      by (simp add: round2_def Let_def y_def f_def r_def k_def)
    have r0: "0 \<le> r" "r < 1" unfolding r_def f_def by linarith+
    have "\<bar>of_int k - y\<bar> \<le> 1 / 2"
      using r0 unfolding k_def r_def by (auto simp: abs_if)
    then have "\<bar>of_int k / 100 - x\<bar> \<le> 1 / 200"
      unfolding y_def by (simp add: abs_if field_simps split: if_splits)
    then have "\<bar>round2 x - x\<bar> \<le> 1 / 200" by (simp only: rk)
    moreover have "\<exists>j::int. round2 x = of_int j / 100" using rk by blast
    ultimately show ?thesis by blast
  qed
  then show ?thesis unfolding nearest2_def by blast
qed

lemma nearest2_ge:
  assumes "nearest2 rnd" and "of_int m / 100 \<le> x"
  shows "of_int m / 100 \<le> rnd x"
proof -
  obtain k :: int where k: "rnd x = of_int k / 100" and c: "\<bar>rnd x - x\<bar> \<le> 1 / 200"
    using assms(1) unfolding nearest2_def by blast
  have "of_int m / 100 - 1 / 200 \<le> (of_int k / 100 :: real)"
    using assms(2) c k by (simp add: abs_if split: if_splits)
  then have "(of_int (2 * m - 1) :: real) \<le> of_int (2 * k)"
    by (simp add: field_simps)
  then have "2 * m - 1 \<le> 2 * k" by (simp only: of_int_le_iff)
  then have "m \<le> k" by arith
  then show ?thesis using k by (simp add: divide_right_mono)
qed

lemma nearest2_le:
  assumes "nearest2 rnd" and "x \<le> of_int m / 100"
  shows "rnd x \<le> of_int m / 100"
proof -
  obtain k :: int where k: "rnd x = of_int k / 100" and c: "\<bar>rnd x - x\<bar> \<le> 1 / 200"
    using assms(1) unfolding nearest2_def by blast
  have "(of_int k / 100 :: real) \<le> of_int m / 100 + 1 / 200"
    using assms(2) c k by (simp add: abs_if split: if_splits)
  then have "(of_int (2 * k) :: real) \<le> of_int (2 * m + 1)"
    by (simp add: field_simps)
  then have "2 * k \<le> 2 * m + 1" by (simp only: of_int_le_iff)
  then have "k \<le> m" by arith
  then show ?thesis using k by (simp add: divide_right_mono)
qed

lemma nearest2_close:
  assumes "nearest2 rnd"
  shows "rnd x - 1 / 200 \<le> x" "x \<le> rnd x + 1 / 200"
proof -
  have "\<bar>rnd x - x\<bar> \<le> 1 / 200" using assms unfolding nearest2_def by blast
  then show "rnd x - 1 / 200 \<le> x" "x \<le> rnd x + 1 / 200" by linarith+
qed

lemma nearest2_num:
  assumes "nearest2 rnd"
  shows "90 \<le> x \<Longrightarrow> 90 \<le> rnd x" "85 \<le> x \<Longrightarrow> 85 \<le> rnd x" "80 \<le> x \<Longrightarrow> 80 \<le> rnd x"
    "75 \<le> x \<Longrightarrow> 75 \<le> rnd x" "x \<le> 10 \<Longrightarrow> rnd x \<le> 10" "x \<le> 15 \<Longrightarrow> rnd x \<le> 15"
    "x \<le> 20 \<Longrightarrow> rnd x \<le> 20" "rnd 0 = 0" "rnd 100 = 100"
  using nearest2_ge[OF assms, of 9000 x] nearest2_ge[OF assms, of 8500 x]
    nearest2_ge[OF assms, of 8000 x] nearest2_ge[OF assms, of 7500 x]
    nearest2_le[OF assms, of x 1000] nearest2_le[OF assms, of x 1500]
    nearest2_le[OF assms, of x 2000]
    nearest2_ge[OF assms, of 0 0] nearest2_le[OF assms, of 0 0]
    nearest2_ge[OF assms, of 10000 100] nearest2_le[OF assms, of 100 10000]
  by simp_all


text \<open>
  With wins or losses in the group the rate and the volatility add up to 100, so each
  tier is decided by the rate alone, before and after the rounding.
\<close>

lemma tiers_on_the_rate:
  assumes rn: "nearest2 rnd" and pos: "0 < w + l"
    and rate: "rate = real w / real (w + l) * 100" and vol: "vol = real l / real (w + l) * 100"
  shows "classify_pair (rnd rate) (rnd vol) n
           = (if n < 5 then SEM_DADOS
              else if 90 \<le> rnd rate then EXCELENTE
              else if 85 \<le> rnd rate then BOM
              else if 80 \<le> rnd rate then OK
              else if 75 \<le> rnd rate then REGULAR
              else PERIGOSO)"
    and "classify_pair rate vol n
           = (if n < 5 then SEM_DADOS
              else if 90 \<le> rate then EXCELENTE
              else if 85 \<le> rate then BOM
              else if 80 \<le> rate then OK
              else if 75 \<le> rate then REGULAR
              else PERIGOSO)"
proof -
  have p: "0 < real (w + l)" using pos by (simp only: of_nat_0_less_iff)
  have "rate + vol = (real w / real (w + l) + real l / real (w + l)) * 100"
    unfolding rate vol by (simp only: distrib_right)
  also have "\<dots> = (real w + real l) / real (w + l) * 100"
    by (simp only: add_divide_distrib)
  also have "\<dots> = 100" using p by simp
  finally have s: "rate + vol = 100" .
  have c: "rnd rate - 1 / 200 \<le> rate" using nearest2_close[OF rn] by blast
  have v1: "90 \<le> rnd rate \<Longrightarrow> rnd vol \<le> 15"
  proof -
    assume "90 \<le> rnd rate"
    then have "vol \<le> 15" using c s by linarith
    then show "rnd vol \<le> 15" using nearest2_num[OF rn] by blast
  qed
  have v2: "85 \<le> rnd rate \<Longrightarrow> rnd vol \<le> 18"
  proof -
    assume "85 \<le> rnd rate"
    then have "vol \<le> 20" using c s by linarith
    then have "rnd vol \<le> 20" using nearest2_num[OF rn] by blast
    moreover have "vol \<le> 15 + 1 / 200" using \<open>85 \<le> rnd rate\<close> c s by linarith
    ultimately show "rnd vol \<le> 18" using nearest2_close[OF rn, of vol] nearest2_le[OF rn, of vol 1501]
      by simp
  qed
  have v3: "80 \<le> rnd rate \<Longrightarrow> rnd vol \<le> 25"
  proof -
    assume "80 \<le> rnd rate"
    then have "vol \<le> 20 + 1 / 200" using c s by linarith
    then show "rnd vol \<le> 25" using nearest2_le[OF rn, of vol 2001] by simp
  qed
  show "classify_pair (rnd rate) (rnd vol) n
           = (if n < 5 then SEM_DADOS
              else if 90 \<le> rnd rate then EXCELENTE
              else if 85 \<le> rnd rate then BOM
              else if 80 \<le> rnd rate then OK
              else if 75 \<le> rnd rate then REGULAR
              else PERIGOSO)"
    using v1 v2 v3 by (simp add: classify_pair_def)
  show "classify_pair rate vol n
           = (if n < 5 then SEM_DADOS
              else if 90 \<le> rate then EXCELENTE
              else if 85 \<le> rate then BOM
              else if 80 \<le> rate then OK
              else if 75 \<le> rate then REGULAR
              else PERIGOSO)"
    using s by (auto simp: classify_pair_def)
qed

lemma count_result_replicate:
  "count_result s (replicate n r) = (if result r = s then n else 0)"
  by (simp add: count_result_def)

lemma count_result_append:
  "count_result s (xs @ ys) = count_result s xs + count_result s ys"
  by (simp add: count_result_def)

text \<open>
  Claim C7 as stated fails on an instrument with 861 wins and 152 losses. Its win rate
  is 84.99506..., below 85, and its volatility 15.00493...: the tiers of the claim put
  it in the third tier. \<open>render_from_json\<close> rounds both to two decimals first, 85.0 and
  15.0, and puts it in the second.
\<close>

theorem C7_counterexample:
  "length (pair_group (asc ''EURUSD'')
      (replicate 861 \<lparr> result = WIN, gale_level = 0, pair = asc ''EURUSD'', time = asc ''14:05:00'',
                        hour = Some 14, tf = asc ''M1'', direction = asc ''call'', payout = None \<rparr>
       @ replicate 152 \<lparr> result = LOSS, gale_level = 0, pair = asc ''EURUSD'', time = asc ''14:05:00'',
                          hour = Some 14, tf = asc ''M1'', direction = asc ''call'', payout = None \<rparr>))
     = 1013
   \<and> count_result WIN (pair_group (asc ''EURUSD'')
      (replicate 861 \<lparr> result = WIN, gale_level = 0, pair = asc ''EURUSD'', time = asc ''14:05:00'',
                        hour = Some 14, tf = asc ''M1'', direction = asc ''call'', payout = None \<rparr>
       @ replicate 152 \<lparr> result = LOSS, gale_level = 0, pair = asc ''EURUSD'', time = asc ''14:05:00'',
                          hour = Some 14, tf = asc ''M1'', direction = asc ''call'', payout = None \<rparr>))
     = 861
   \<and> count_result LOSS (pair_group (asc ''EURUSD'')
      (replicate 861 \<lparr> result = WIN, gale_level = 0, pair = asc ''EURUSD'', time = asc ''14:05:00'',
                        hour = Some 14, tf = asc ''M1'', direction = asc ''call'', payout = None \<rparr>
       @ replicate 152 \<lparr> result = LOSS, gale_level = 0, pair = asc ''EURUSD'', time = asc ''14:05:00'',
                          hour = Some 14, tf = asc ''M1'', direction = asc ''call'', payout = None \<rparr>))
     = 152
   \<and> (861 / (861 + 152) * 100 :: real) < 85
   \<and> classify_pair (861 / (861 + 152) * 100) (152 / (861 + 152) * 100) 1013 = OK
   \<and> pair_classification round2 (pair_group (asc ''EURUSD'')
      (replicate 861 \<lparr> result = WIN, gale_level = 0, pair = asc ''EURUSD'', time = asc ''14:05:00'',
                        hour = Some 14, tf = asc ''M1'', direction = asc ''call'', payout = None \<rparr>
       @ replicate 152 \<lparr> result = LOSS, gale_level = 0, pair = asc ''EURUSD'', time = asc ''14:05:00'',
                          hour = Some 14, tf = asc ''M1'', direction = asc ''call'', payout = None \<rparr>))
     = BOM"
proof -
  let ?w = "\<lparr> result = WIN, gale_level = 0, pair = asc ''EURUSD'', time = asc ''14:05:00'',
                        hour = Some 14, tf = asc ''M1'', direction = asc ''call'', payout = None \<rparr>"
  let ?l = "\<lparr> result = LOSS, gale_level = 0, pair = asc ''EURUSD'', time = asc ''14:05:00'',
                          hour = Some 14, tf = asc ''M1'', direction = asc ''call'', payout = None \<rparr>"
  have g: "pair_group (asc ''EURUSD'') (replicate 861 ?w @ replicate 152 ?l)
             = replicate 861 ?w @ replicate 152 ?l"
    by (simp add: pair_group_def)
  have n: "length (replicate 861 ?w @ replicate 152 ?l) = 1013" by simp
  have w: "count_result WIN (replicate 861 ?w @ replicate 152 ?l) = 861"
    using results_distinct by (simp add: count_result_append count_result_replicate)
  have l: "count_result LOSS (replicate 861 ?w @ replicate 152 ?l) = 152"
    using results_distinct by (simp add: count_result_append count_result_replicate)
  have r1: "round2 (real 861 / real (861 + 152) * 100) = 85"
    by (simp add: round2_def Let_def)
  have r2: "round2 (real 152 / real (861 + 152) * 100) = 15"
    by (simp add: round2_def Let_def)
  have c: "pair_classification round2 (replicate 861 ?w @ replicate 152 ?l) = BOM"
    unfolding pair_classification_def pair_win_rate_pct_def pair_volatility_pct_def
      calculate_volatility_def Let_def w l n
    using r1 r2 by (simp add: classify_pair_def)
  have e: "classify_pair (861 / (861 + 152) * 100) (152 / (861 + 152) * 100) 1013 = OK"
    by (simp add: classify_pair_def)
  show ?thesis
    unfolding g using n w l c e by simp
qed


text \<open>
  Claim C7, amended. For every record set and every instrument, with \<open>n\<close> records,
  \<open>w\<close> wins and \<open>l\<close> losses of the instrument: the win rate of its row is
  \<open>w / (w + l) * 100\<close> and the volatility \<open>l / (w + l) * 100\<close>, both 0 without wins
  and losses and both rounded to two decimals; with fewer than five records the row is
  classified as without data, and otherwise by the rounded values into the first tier
  whose bounds hold: rate at least 90 with volatility at most 15, rate at least 85 with
  volatility at most 18, rate at least 80 with volatility at most 25, rate at least 75,
  else the worst tier. Whenever the win rate is not within 0.005 below one of the
  bounds 75, 80, 85 and 90, that is the tier of the unrounded values. Ten wins and no
  loss give the top tier.
\<close>

theorem C7_tiers:
  assumes rn: "nearest2 rnd"
  shows "(let grp = filter (\<lambda>r. pair r = p) rs;
              n = length grp;
              w = length (filter (\<lambda>r. result r = WIN) grp);
              l = length (filter (\<lambda>r. result r = LOSS) grp);
              rate = (if w + l = 0 then 0 else real w / real (w + l) * 100);
              vol = (if w + l = 0 then 0 else real l / real (w + l) * 100)
          in pair_win_rate_pct rnd (pair_group p rs) = rnd rate
           \<and> pair_volatility_pct rnd (pair_group p rs) = rnd vol
           \<and> pair_classification rnd (pair_group p rs)
               = (if n < 5 then SEM_DADOS
                  else if 90 \<le> rnd rate \<and> rnd vol \<le> 15 then EXCELENTE
                  else if 85 \<le> rnd rate \<and> rnd vol \<le> 18 then BOM
                  else if 80 \<le> rnd rate \<and> rnd vol \<le> 25 then OK
                  else if 75 \<le> rnd rate then REGULAR
                  else PERIGOSO)
           \<and> ((\<forall>t \<in> {75, 80, 85, 90}. \<not> (t - 1 / 200 \<le> rate \<and> rate < t)) \<longrightarrow>
                pair_classification rnd (pair_group p rs)
                  = (if n < 5 then SEM_DADOS
                     else if 90 \<le> rate \<and> vol \<le> 15 then EXCELENTE
                     else if 85 \<le> rate \<and> vol \<le> 18 then BOM
                     else if 80 \<le> rate \<and> vol \<le> 25 then OK
                     else if 75 \<le> rate then REGULAR
                     else PERIGOSO)))
         \<and> pair_classification rnd
               (pair_group q (replicate 10 \<lparr> result = WIN, gale_level = 0, pair = q, time = tm,
                                              hour = h, tf = f, direction = d, payout = po \<rparr>))
             = EXCELENTE"
proof -
  define grp where "grp = filter (\<lambda>r. pair r = p) rs"
  define n where "n = length grp"
  define w where "w = length (filter (\<lambda>r. result r = WIN) grp)"
  define l where "l = length (filter (\<lambda>r. result r = LOSS) grp)"
  define rate where "rate = (if w + l = 0 then 0 else real w / real (w + l) * 100)"
  define vol where "vol = (if w + l = 0 then 0 else real l / real (w + l) * 100)"
  have wr: "pair_win_rate_pct rnd (pair_group p rs) = rnd rate"
    by (simp add: pair_win_rate_pct_def pair_group_def count_result_def rate_def w_def l_def
        grp_def Let_def)
  have vr: "pair_volatility_pct rnd (pair_group p rs) = rnd vol"
    by (simp add: pair_volatility_pct_def calculate_volatility_def pair_group_def count_result_def
        vol_def w_def l_def grp_def Let_def)
  have cl: "pair_classification rnd (pair_group p rs) = classify_pair (rnd rate) (rnd vol) n"
    unfolding pair_classification_def wr vr by (simp add: n_def grp_def pair_group_def)
  have c1: "pair_classification rnd (pair_group p rs)
               = (if n < 5 then SEM_DADOS
                  else if 90 \<le> rnd rate \<and> rnd vol \<le> 15 then EXCELENTE
                  else if 85 \<le> rnd rate \<and> rnd vol \<le> 18 then BOM
                  else if 80 \<le> rnd rate \<and> rnd vol \<le> 25 then OK
                  else if 75 \<le> rnd rate then REGULAR
                  else PERIGOSO)"
    unfolding cl by (simp add: classify_pair_def)
  have c2: "pair_classification rnd (pair_group p rs)
                  = (if n < 5 then SEM_DADOS
                     else if 90 \<le> rate \<and> vol \<le> 15 then EXCELENTE
                     else if 85 \<le> rate \<and> vol \<le> 18 then BOM
                     else if 80 \<le> rate \<and> vol \<le> 25 then OK
                     else if 75 \<le> rate then REGULAR
                     else PERIGOSO)"
    if h: "\<forall>t \<in> {75, 80, 85, 90}. \<not> (t - 1 / 200 \<le> rate \<and> rate < t)"
  proof (cases "w + l = 0")
    case True
    then have "rate = 0" "vol = 0" by (simp_all add: rate_def vol_def)
    then show ?thesis unfolding cl using nearest2_num[OF rn] by (simp add: classify_pair_def)
  next
    case False
    then have pos: "0 < w + l" by simp
    have r: "rate = real w / real (w + l) * 100" and v: "vol = real l / real (w + l) * 100"
      using False by (simp_all add: rate_def vol_def)
    have c: "rnd rate - 1 / 200 \<le> rate" using nearest2_close[OF rn] by blast
    have e90: "90 \<le> rnd rate \<longleftrightarrow> 90 \<le> rate"
      using h c nearest2_num(1)[OF rn, of rate] by auto
    have e85: "85 \<le> rnd rate \<longleftrightarrow> 85 \<le> rate"
      using h c nearest2_num(2)[OF rn, of rate] by auto
    have e80: "80 \<le> rnd rate \<longleftrightarrow> 80 \<le> rate"
      using h c nearest2_num(3)[OF rn, of rate] by auto
    have e75: "75 \<le> rnd rate \<longleftrightarrow> 75 \<le> rate"
      using h c nearest2_num(4)[OF rn, of rate] by auto
    have "classify_pair (rnd rate) (rnd vol) n = classify_pair rate vol n"
      unfolding tiers_on_the_rate[OF rn pos r v] e90 e85 e80 e75 ..
    then show ?thesis unfolding cl by (simp add: classify_pair_def)
  qed
  have ten: "pair_classification rnd
               (pair_group q (replicate 10 \<lparr> result = WIN, gale_level = 0, pair = q, time = tm,
                                              hour = h, tf = f, direction = d, payout = po \<rparr>))
             = EXCELENTE"
    using results_distinct nearest2_num(8,9)[OF rn]
    by (simp add: pair_classification_def pair_win_rate_pct_def pair_volatility_pct_def
        calculate_volatility_def pair_group_def count_result_def classify_pair_def)
  show ?thesis
    using wr vr c1 c2 ten
    unfolding Let_def grp_def n_def w_def l_def rate_def vol_def by blast
qed


theorem C7_witness:
  "nearest2 round2
   \<and> list_all (\<lambda>t. \<not> (t - 1 / 200 \<le> (80::real) \<and> (80::real) < t)) [75, 80, 85, 90]
   \<and> pair_classification round2 (pair_group (asc ''EURUSD'')
        (replicate 4 \<lparr> result = WIN, gale_level = 0, pair = asc ''EURUSD'', time = asc ''14:05:00'',
                        hour = Some 14, tf = asc ''M1'', direction = asc ''call'', payout = None \<rparr>
         @ [\<lparr> result = LOSS, gale_level = 1, pair = asc ''EURUSD'', time = asc ''15:05:00'',
              hour = Some 15, tf = asc ''M1'', direction = asc ''put'', payout = None \<rparr>,
            \<lparr> result = LOSS, gale_level = 0, pair = asc ''GBPUSD'', time = asc ''15:10:00'',
              hour = Some 15, tf = asc ''M1'', direction = asc ''put'', payout = None \<rparr>]))
     = OK"
proof -
  let ?rs = "replicate 4 \<lparr> result = WIN, gale_level = 0, pair = asc ''EURUSD'', time = asc ''14:05:00'',
                        hour = Some 14, tf = asc ''M1'', direction = asc ''call'', payout = None \<rparr>
         @ [\<lparr> result = LOSS, gale_level = 1, pair = asc ''EURUSD'', time = asc ''15:05:00'',
              hour = Some 15, tf = asc ''M1'', direction = asc ''put'', payout = None \<rparr>,
            \<lparr> result = LOSS, gale_level = 0, pair = asc ''GBPUSD'', time = asc ''15:10:00'',
              hour = Some 15, tf = asc ''M1'', direction = asc ''put'', payout = None \<rparr>]"
  let ?grp = "filter (\<lambda>r. pair r = asc ''EURUSD'') ?rs"
  let ?w = "length (filter (\<lambda>r. result r = WIN) ?grp)"
  let ?l = "length (filter (\<lambda>r. result r = LOSS) ?grp)"
  let ?rate = "if ?w + ?l = 0 then 0 else real ?w / real (?w + ?l) * 100"
  let ?vol = "if ?w + ?l = 0 then 0 else real ?l / real (?w + ?l) * 100"
  have d: "asc ''GBPUSD'' \<noteq> asc ''EURUSD''" by (simp add: asc_def)
  have n: "length ?grp = 5" using d by simp
  have w: "?w = 4" using d results_distinct by simp
  have l: "?l = 1" using d results_distinct by simp
  have rate: "?rate = 80" unfolding w l by simp
  have vol: "?vol = 20" unfolding w l by simp
  have h: "\<forall>t \<in> {75, 80, 85, 90}. \<not> (t - 1 / 200 \<le> (80::real) \<and> (80::real) < t)" by simp
  have "(\<forall>t \<in> {75, 80, 85, 90}. \<not> (t - 1 / 200 \<le> ?rate \<and> ?rate < t)) \<longrightarrow>
          pair_classification round2 (pair_group (asc ''EURUSD'') ?rs)
            = (if length ?grp < 5 then SEM_DADOS
               else if 90 \<le> ?rate \<and> ?vol \<le> 15 then EXCELENTE
               else if 85 \<le> ?rate \<and> ?vol \<le> 18 then BOM
               else if 80 \<le> ?rate \<and> ?vol \<le> 25 then OK
               else if 75 \<le> ?rate then REGULAR
               else PERIGOSO)"
    using C7_tiers[OF round2_nearest2, of "asc ''EURUSD''" ?rs] unfolding Let_def by blast
  then have "pair_classification round2 (pair_group (asc ''EURUSD'') ?rs) = OK"
    unfolding rate vol n using h by simp
  then show ?thesis using round2_nearest2 by simp
qed


section \<open>Pooled win rates\<close>

text \<open>
  Claim C6 as stated fails: with one WIN at level 0 and one LOSS at level 1 every level
  has a win rate of at least 0, the rate at level 0 is 100 and the rate through gale 1
  is 50.
\<close>

theorem C6_counterexample:
  "0 \<le> wr_g 1 [\<lparr> result = WIN, gale_level = 0 \<rparr>, \<lparr> result = LOSS, gale_level = 1 \<rparr>]
   \<and> 0 \<le> wr_g 2 [\<lparr> result = WIN, gale_level = 0 \<rparr>, \<lparr> result = LOSS, gale_level = 1 \<rparr>]
   \<and> wr_g 0 [\<lparr> result = WIN, gale_level = 0 \<rparr>, \<lparr> result = LOSS, gale_level = 1 \<rparr>] = 100
   \<and> wr_com_g1 [\<lparr> result = WIN, gale_level = 0 \<rparr>, \<lparr> result = LOSS, gale_level = 1 \<rparr>] = 50
   \<and> \<not> wr_g 0 [\<lparr> result = WIN, gale_level = 0 \<rparr>, \<lparr> result = LOSS, gale_level = 1 \<rparr>]
         \<le> wr_com_g1 [\<lparr> result = WIN, gale_level = 0 \<rparr>, \<lparr> result = LOSS, gale_level = 1 \<rparr>]"
  using results_distinct
  by (simp add: wr_g_def wr_com_g1_def rate_pct_def count_level_result_def count_result_def)


text \<open>
  Claim C6, amended. For any fixed record set, the rate through gale 1 is at least the
  rate at level 0 whenever level 1 holds no WIN or LOSS or its win rate is at least the
  rate at level 0; and the rate over all records, which is what \<open>render_from_json\<close>
  shows as the rate through gale 2, is at least the rate through gale 1 whenever the
  records beyond level 1 hold no WIN or LOSS or their win rate is at least the rate
  through gale 1.
\<close>

theorem C6_pooled_rates:
  "(count_level_result 1 WIN rs + count_level_result 1 LOSS rs = 0 \<or> wr_g 0 rs \<le> wr_g 1 rs
      \<longrightarrow> wr_g 0 rs \<le> wr_com_g1 rs)
   \<and> (count_result WIN (filter (\<lambda>r. 1 < gale_level r) rs)
        + count_result LOSS (filter (\<lambda>r. 1 < gale_level r) rs) = 0
      \<or> wr_com_g1 rs \<le> rate_pct (count_result WIN (filter (\<lambda>r. 1 < gale_level r) rs))
                                   (count_result LOSS (filter (\<lambda>r. 1 < gale_level r) rs))
      \<longrightarrow> wr_com_g1 rs \<le> wr_com_g1_g2 rs)"
proof (intro conjI impI)
  assume h: "count_level_result 1 WIN rs + count_level_result 1 LOSS rs = 0 \<or> wr_g 0 rs \<le> wr_g 1 rs"
  have "rate_pct (count_level_result 0 WIN rs) (count_level_result 0 LOSS rs)
        \<le> rate_pct (count_level_result 0 WIN rs + count_level_result 1 WIN rs)
                    (count_level_result 0 LOSS rs + count_level_result 1 LOSS rs)"
    using h by (intro rate_pct_pool) (simp add: wr_g_def)
  then show "wr_g 0 rs \<le> wr_com_g1 rs"
    unfolding wr_g_def wr_com_g1_def Let_def count_level_le1 .
next
  let ?lo = "filter (\<lambda>r. gale_level r \<le> 1) rs" and ?hi = "filter (\<lambda>r. 1 < gale_level r) rs"
  assume h: "count_result WIN ?hi + count_result LOSS ?hi = 0
      \<or> wr_com_g1 rs \<le> rate_pct (count_result WIN ?hi) (count_result LOSS ?hi)"
  have "rate_pct (count_result WIN ?lo) (count_result LOSS ?lo)
        \<le> rate_pct (count_result WIN ?lo + count_result WIN ?hi)
                    (count_result LOSS ?lo + count_result LOSS ?hi)"
    using h by (intro rate_pct_pool) (simp add: wr_com_g1_def Let_def)
  then show "wr_com_g1 rs \<le> wr_com_g1_g2 rs"
    using count_split_beyond[of WIN rs] count_split_beyond[of LOSS rs]
    by (simp add: wr_com_g1_def wr_com_g1_g2_def Let_def)
qed

theorem C6_witness:
  "wr_g 0 [\<lparr> result = WIN, gale_level = 0 \<rparr>, \<lparr> result = LOSS, gale_level = 0 \<rparr>,
           \<lparr> result = WIN, gale_level = 1 \<rparr>, \<lparr> result = WIN, gale_level = 2 \<rparr>]
     \<le> wr_g 1 [\<lparr> result = WIN, gale_level = 0 \<rparr>, \<lparr> result = LOSS, gale_level = 0 \<rparr>,
           \<lparr> result = WIN, gale_level = 1 \<rparr>, \<lparr> result = WIN, gale_level = 2 \<rparr>]
   \<and> wr_g 0 [\<lparr> result = WIN, gale_level = 0 \<rparr>, \<lparr> result = LOSS, gale_level = 0 \<rparr>,
           \<lparr> result = WIN, gale_level = 1 \<rparr>, \<lparr> result = WIN, gale_level = 2 \<rparr>]
     \<le> wr_com_g1 [\<lparr> result = WIN, gale_level = 0 \<rparr>, \<lparr> result = LOSS, gale_level = 0 \<rparr>,
           \<lparr> result = WIN, gale_level = 1 \<rparr>, \<lparr> result = WIN, gale_level = 2 \<rparr>]
   \<and> wr_com_g1 [\<lparr> result = WIN, gale_level = 0 \<rparr>, \<lparr> result = LOSS, gale_level = 0 \<rparr>,
           \<lparr> result = WIN, gale_level = 1 \<rparr>, \<lparr> result = WIN, gale_level = 2 \<rparr>]
     \<le> wr_com_g1_g2 [\<lparr> result = WIN, gale_level = 0 \<rparr>, \<lparr> result = LOSS, gale_level = 0 \<rparr>,
           \<lparr> result = WIN, gale_level = 1 \<rparr>, \<lparr> result = WIN, gale_level = 2 \<rparr>]"
proof -
  let ?rs = "[\<lparr> result = WIN, gale_level = 0 \<rparr>, \<lparr> result = LOSS, gale_level = 0 \<rparr>,
           \<lparr> result = WIN, gale_level = 1 \<rparr>, \<lparr> result = WIN, gale_level = 2 \<rparr>]"
  have a: "wr_g 0 ?rs \<le> wr_g 1 ?rs"
    using results_distinct
    by (simp add: wr_g_def rate_pct_def count_level_result_def)
  have b: "wr_com_g1 ?rs \<le> rate_pct (count_result WIN (filter (\<lambda>r. 1 < gale_level r) ?rs))
                                   (count_result LOSS (filter (\<lambda>r. 1 < gale_level r) ?rs))"
    using results_distinct
    by (simp add: wr_com_g1_def rate_pct_def count_result_def Let_def)
  show ?thesis
    using a b C6_pooled_rates[of ?rs] by blast
qed


section \<open>The profit of a record\<close>





text \<open>
  What the amended claim leaves out: in a frame where one record has a payout and
  another has none, the unknown payout reaches \<open>compute_profit_for_record\<close> as NaN, the
  \<open>or\<close> keeps it, the profit of a WIN is NaN and the sum skips it. With a WIN of payout
  0.87 and a WIN of unknown payout the total is 1.74, where the default payout would
  give 1.74 + 1.70; when no record has a payout the default is used.
\<close>

lemma app_nan_payout:
  "frame_rows
     [\<lparr> result = WIN, gale_level = 0, pair = asc ''EURUSD'', time = asc ''14:05:00'',
        hour = Some 14, tf = asc ''M1'', direction = asc ''call'', payout = Some (87 / 100) \<rparr>,
      \<lparr> result = WIN, gale_level = 0, pair = asc ''GBPUSD'', time = asc ''14:10:00'',
        hour = Some 14, tf = asc ''M1'', direction = asc ''put'', payout = None \<rparr>]
     = [\<lparr> result = WIN, gale_level = 0, row_payout = Some (Fin (87 / 100)) \<rparr>,
        \<lparr> result = WIN, gale_level = 0, row_payout = Some NaN \<rparr>]
   \<and> compute_profit_for_record lib0
       \<lparr> result = WIN, gale_level = 0, row_payout = Some NaN \<rparr> stakes_c1 payout_minimo = Inr NaN
   \<and> sum_profits lib0
     [\<lparr> result = WIN, gale_level = 0, pair = asc ''EURUSD'', time = asc ''14:05:00'',
        hour = Some 14, tf = asc ''M1'', direction = asc ''call'', payout = Some (87 / 100) \<rparr>,
      \<lparr> result = WIN, gale_level = 0, pair = asc ''GBPUSD'', time = asc ''14:10:00'',
        hour = Some 14, tf = asc ''M1'', direction = asc ''put'', payout = None \<rparr>]
     stakes_c1 payout_minimo = Inr (174 / 100)
   \<and> sum_profits lib0
     [\<lparr> result = WIN, gale_level = 0, pair = asc ''EURUSD'', time = asc ''14:05:00'',
        hour = Some 14, tf = asc ''M1'', direction = asc ''call'', payout = None \<rparr>,
      \<lparr> result = WIN, gale_level = 0, pair = asc ''GBPUSD'', time = asc ''14:10:00'',
        hour = Some 14, tf = asc ''M1'', direction = asc ''put'', payout = None \<rparr>]
     stakes_c1 payout_minimo = Inr (340 / 100)"
  using results_distinct
  by (simp add: frame_rows_def sum_profits_def compute_profit_for_record_def py_upper_results
      payout_or_default_def stakes_c1_def payout_minimo_def py_index_def fmul_def)


section \<open>Win rates and draws\<close>

text \<open>
  Claim C3 at one WIN and one DOJI in the same hour and at level 0. The rate of the
  hour in \<open>summarize_resolved\<close> is 50, and so is the rate of level 0 in
  \<open>qualidade_sala\<close>: both divide by all the records of the group. The rate of the same
  hour in \<open>validacao_horarios\<close>, the rate of the same level in \<open>analise_gales\<close> and
  the global rate of \<open>summarize_resolved\<close> are 100: they leave the draw out.
\<close>

theorem C3_draws_in_the_denominator:
  "a_hourly_row
     [\<lparr> result = WIN, gale_level = 0, pair = asc ''EURUSD'', time = asc ''14:05:00'',
        hour = Some 14, tf = asc ''M1'', direction = asc ''call'', payout = None \<rparr>,
      \<lparr> result = DOJI, gale_level = 0, pair = asc ''EURUSD'', time = asc ''14:10:00'',
        hour = Some 14, tf = asc ''M1'', direction = asc ''put'', payout = None \<rparr>] 14
     = (14, 2, 1, 50)
   \<and> v_hour_win_rate
     [\<lparr> result = WIN, gale_level = 0, pair = asc ''EURUSD'', time = asc ''14:05:00'',
        hour = Some 14, tf = asc ''M1'', direction = asc ''call'', payout = None \<rparr>,
      \<lparr> result = DOJI, gale_level = 0, pair = asc ''EURUSD'', time = asc ''14:10:00'',
        hour = Some 14, tf = asc ''M1'', direction = asc ''put'', payout = None \<rparr>] 14
     = 100
   \<and> win_rate_g_pct 0 [\<lparr> result = WIN, gale_level = 0 \<rparr>, \<lparr> result = DOJI, gale_level = 0 \<rparr>] = 50
   \<and> wr_g 0 [\<lparr> result = WIN, gale_level = 0 \<rparr>, \<lparr> result = DOJI, gale_level = 0 \<rparr>] = 100
   \<and> a_win_rate [\<lparr> result = WIN, gale_level = 0 \<rparr>, \<lparr> result = DOJI, gale_level = 0 \<rparr>] = 100"
proof -
  have r: "round2 100 = 100" "round2 50 = 50" by (simp_all add: round2_def)
  show ?thesis
    using results_distinct
    by (simp add: a_hourly_row_def v_hour_win_rate_def win_rate_g_pct_def wr_g_def a_win_rate_def
        a_dojis_def count_result_def count_level_def count_level_result_def rate_pct_def
        safe_div_def r Let_def)
qed


section \<open>Records of resolved lines\<close>

lemma one_line_of_empty: "one_line_of [] = []"
  by (simp add: one_line_of_def splitlines_def strip_def)

lemma resolved_rx_no_empty: "re_match (resolved_rx lib rname alts) [] = None"
  by (simp add: re_match_def resolved_rx_def seqs_def)

lemma sup_to_level_le: "sup_to_level s \<le> 3"
  by (simp add: sup_to_level_def SUPERSCRIPT_MAP_def)

lemma sup_to_level_table:
  "sup_to_level s
     = (if s = [185] \<or> s = asc ''1'' then 1
        else if s = [178] \<or> s = asc ''2'' then 2
        else if s = [179] \<or> s = asc ''3'' then 3
        else 0)"
  by (simp add: sup_to_level_def SUPERSCRIPT_MAP_def asc_def)

lemma g_extract_loop_concat:
  "g_extract_loop lib ms acc
     = acc @ concat (map (\<lambda>m.
         case re_match (g_RESOLVED_RE lib) (one_line_of (get_text_from_msg m)) of
           None \<Rightarrow> []
         | Some caps \<Rightarrow>
             [\<lparr> result = normalize_result (py_upper lib (strip (m_group caps ''r''))),
                gale_level = sup_to_level (m_group caps ''sup'') \<rparr>]) ms)"
proof (induction ms arbitrary: acc)
  case Nil
  then show ?case by simp
next
  case (Cons m ms)
  show ?case
  proof (cases "get_text_from_msg m = []")
    case True
    then show ?thesis
      using Cons.IH by (simp add: one_line_of_empty g_RESOLVED_RE_def resolved_rx_no_empty)
  next
    case False
    then show ?thesis
      using Cons.IH by (simp add: Let_def split: option.splits)
  qed
qed

text \<open>
  The extractor of \<open>gestao_risco\<close> on the text that \<open>_get_text_from_msg\<close> returns:
  message by message and in order, no record when the one-line text does not match the
  resolved-line pattern and exactly one when it matches; the result of every record is
  WIN, LOSS or DOJI and its gale level is what \<open>sup_to_level\<close> gives for the mark
  after the check symbol.
\<close>

lemma g_extract_records_lines:
  "g_extract_records lib messages
     = concat (map (\<lambda>m.
         case re_match (g_RESOLVED_RE lib) (one_line_of (get_text_from_msg m)) of
           None \<Rightarrow> []
         | Some caps \<Rightarrow>
             [\<lparr> result = normalize_result (py_upper lib (strip (m_group caps ''r''))),
                gale_level = sup_to_level (m_group caps ''sup'') \<rparr>]) messages)"
  by (simp add: g_extract_records_def g_extract_loop_concat)

lemma g_extract_records_results:
  assumes "r \<in> set (g_extract_records lib messages)"
  shows "(result r = WIN \<or> result r = LOSS \<or> result r = DOJI) \<and> gale_level r \<le> 3"
  using assms sup_to_level_le unfolding g_extract_records_lines
  by (auto simp: normalize_result_def split: option.splits)

text \<open>
  A text of three lines, the resolved line between a blank line and two line ends: the
  pattern does not match the text as it is and matches its one-line form.
\<close>

lemma g_extract_records_example:
  "g_extract_records lib0
     [[(asc ''text'', VStr ([10, 9989, 185] @ asc '' EURUSD-OTC - 14:05:00 - M1 - call - WIN'' @ [10, 10]))],
      [(asc ''text'', VStr (asc ''bom dia''))],
      [(asc ''text'', VStr ([10060] @ asc '' GBPUSD - 09:30:00 - M5 - put - loss''))]]
     = [\<lparr> result = WIN, gale_level = 1 \<rparr>, \<lparr> result = LOSS, gale_level = 0 \<rparr>]
   \<and> re_match (g_RESOLVED_RE lib0)
         ([10, 9989, 185] @ asc '' EURUSD-OTC - 14:05:00 - M1 - call - WIN'' @ [10, 10]) = None"
  by code_simp

text \<open>
  Claim C9 at a resolved line whose result is written with the capital dotted I
  (U+0130), which \<open>re.IGNORECASE\<close> takes for the I of the pattern and \<open>upper\<close> leaves
  as it is. \<open>extract_records\<close> of \<open>app\<close> keeps a token that is none of WIN, LOSS and
  DOJI as the result of the record; the extractors of \<open>gestao_risco\<close> and
  \<open>validacao_horarios\<close> write LOSS. And at a resolved line given as a list of
  fragments: \<open>app\<close> joins the fragments and makes the record; \<open>_get_text_from_msg\<close>
  of the other modules has no text for it, and they make none. On a resolved line as
  text the two agree, also where only the one-line form of the text matches the
  pattern: one record for the message, none for a message that is no resolved line.
\<close>

theorem C9_result_kept_as_written:
  "(case extract_records lib0
           [[(asc ''text'', VStr ([9989] @ asc '' EURUSD - 14:05:00 - M1 - call - W'' @ [304] @ asc ''N''))]] of
      Inl e \<Rightarrow> [] | Inr st \<Rightarrow> map (\<lambda>r. (result r, gale_level r)) (fst st))
     = [(asc ''W'' @ [304] @ asc ''N'', 0)]
   \<and> asc ''W'' @ [304] @ asc ''N'' \<noteq> WIN
   \<and> asc ''W'' @ [304] @ asc ''N'' \<noteq> LOSS
   \<and> asc ''W'' @ [304] @ asc ''N'' \<noteq> DOJI
   \<and> g_extract_records lib0
         [[(asc ''text'', VStr ([9989] @ asc '' EURUSD - 14:05:00 - M1 - call - W'' @ [304] @ asc ''N''))]]
     = [\<lparr> result = LOSS, gale_level = 0 \<rparr>]
   \<and> (case v_extract_records lib0
           [[(asc ''text'', VStr ([9989] @ asc '' EURUSD - 14:05:00 - M1 - call - W'' @ [304] @ asc ''N''))]] of
      Inl e \<Rightarrow> [] | Inr rs \<Rightarrow> map (\<lambda>r. (result r, gale_level r)) rs)
     = [(LOSS, 0)]
   \<and> (case extract_records lib0
           [[(asc ''text'',
              VList [VStr [9989, 185, 32],
                     VDict [(asc ''type'', VStr (asc ''bold'')), (asc ''text'', VStr (asc ''EURUSD-OTC''))],
                     VStr (asc '' - 14:05:00 - M1 - call - WIN'')])]] of
      Inl e \<Rightarrow> [] | Inr st \<Rightarrow> map (\<lambda>r. (result r, gale_level r)) (fst st))
     = [(WIN, 1)]
   \<and> g_extract_records lib0
         [[(asc ''text'',
            VList [VStr [9989, 185, 32],
                   VDict [(asc ''type'', VStr (asc ''bold'')), (asc ''text'', VStr (asc ''EURUSD-OTC''))],
                   VStr (asc '' - 14:05:00 - M1 - call - WIN'')])]]
     = []
   \<and> re_match (RESOLVED_RE lib0)
         ([10, 9989, 185] @ asc '' EURUSD-OTC - 14:05:00 - M1 - call - WIN'' @ [10, 10]) = None
   \<and> (case extract_records lib0
           [[(asc ''text'',
              VStr ([10, 9989, 185] @ asc '' EURUSD-OTC - 14:05:00 - M1 - call - WIN'' @ [10, 10]))],
            [(asc ''text'', VStr (asc ''bom dia''))]] of
      Inl e \<Rightarrow> [] | Inr st \<Rightarrow> map (\<lambda>r. (result r, gale_level r)) (fst st))
     = [(WIN, 1)]
   \<and> g_extract_records lib0
         [[(asc ''text'',
            VStr ([10, 9989, 185] @ asc '' EURUSD-OTC - 14:05:00 - M1 - call - WIN'' @ [10, 10]))],
          [(asc ''text'', VStr (asc ''bom dia''))]]
     = [\<lparr> result = WIN, gale_level = 1 \<rparr>]"
  by code_simp


section \<open>The date normalizer on strings of digits\<close>

lemma ascii_digit_is_digit: "48 \<le> c \<Longrightarrow> c \<le> 57 \<Longrightarrow> is_digit lib c"
  by (simp add: is_digit_def digit_val_def)

lemma digits_value_digits:
  "\<forall>c \<in> set s. is_digit lib c \<Longrightarrow> \<exists>n. digits_value lib s acc = Some n"
  by (induction s arbitrary: acc) (auto simp: is_digit_def)

lemma strip_no_space_ends:
  assumes "\<forall>c \<in> set s. \<not> isspace c"
  shows "strip s = s"
proof -
  have a: "dropWhile isspace s = s"
    using assms by (cases s) auto
  have "\<forall>c \<in> set (rev s). \<not> isspace c" using assms by simp
  then have b: "dropWhile isspace (rev s) = rev s"
    by (cases "rev s") auto
  show ?thesis by (simp add: strip_def a b)
qed

lemma epoch_try_digits:
  assumes ne: "s \<noteq> []" and dg: "\<forall>c \<in> set s. is_digit lib c"
  shows "\<exists>n. py_int lib s = Some n \<and> is_numeric lib s
           \<and> epoch_try lib s
               = fromtimestamp lib (if n > 1000000000000 then n div 1000 else n)"
proof -
  obtain k where k: "digits_value lib s 0 = Some k"
    using digits_value_digits[OF dg] by blast
  have pi: "py_int lib s = Some k" using ne k by (simp add: py_int_def)
  have f: "filter (is_digit lib) s = s" using dg by (induction s) auto
  show ?thesis
    using pi ne by (simp add: epoch_try_def is_numeric_def f Let_def)
qed

lemma days_1700000000:
  assumes "\<bar>off\<bar> \<le> (86400::int)"
  shows "(1700000000 + off) div 86400 = 19674 \<or> (1700000000 + off) div 86400 = 19675
         \<or> (1700000000 + off) div 86400 = 19676"
  using assms by arith

lemma civil_2023: "fst (civil_from_days 19674) = 2023" "fst (civil_from_days 19675) = 2023"
  "fst (civil_from_days 19676) = 2023"
  by code_simp+

lemma fromtimestamp_1700000000:
  assumes "\<bar>utcoff lib 1700000000\<bar> \<le> 86400"
  shows "fromtimestamp lib 1700000000
           = Inr (civil_from_days ((1700000000 + utcoff lib 1700000000) div 86400))"
proof -
  have "fst (civil_from_days ((1700000000 + utcoff lib 1700000000) div 86400)) = 2023"
    using days_1700000000[OF assms] civil_2023 by auto
  then show ?thesis by (simp add: fromtimestamp_def Let_def)
qed

lemma py_int_1700000000: "py_int lib (asc ''1700000000'') = Some 1700000000"
  "py_int lib (asc ''1700000000000'') = Some 1700000000000"
  by (simp_all add: py_int_def asc_def digit_val_def)

lemma isspace_bounds:
  "isspace c \<Longrightarrow> c \<le> 160 \<or> c = 5760 \<or> (8192 \<le> c \<and> c \<le> 8287) \<or> c = 12288"
  unfolding isspace_def by linarith

lemma ex_digit_not_space:
  assumes "isspace c"
  shows "ex_digit c = None"
proof -
  have "\<forall>b \<in> set digit_blocks. \<not> (b \<le> c \<and> c < b + 10)"
    using isspace_bounds[OF assms] unfolding digit_blocks_def by (elim disjE) simp_all
  then have "find (\<lambda>b. b \<le> c \<and> c < b + 10) digit_blocks = None"
    by (simp only: find_None_iff) blast
  then show ?thesis by (simp add: ex_digit_def)
qed

lemma lib0_digits_not_space: "is_digit lib0 c \<Longrightarrow> \<not> isspace c"
proof
  assume d: "is_digit lib0 c" and s: "isspace c"
  have "ex_digit c = None" using s by (rule ex_digit_not_space)
  moreover have "\<not> (48 \<le> c \<and> c \<le> 57)" using s unfolding isspace_def by linarith
  ultimately show False
    using d by (simp add: is_digit_def digit_val_def lib0_def lib_tables_def split: if_splits)
qed

text \<open>
  Claim C8 as stated fails on 999999999999: the string consists of digits, its value as
  seconds lies beyond the year 9999, the conversion raises, the \<open>except\<close> passes, and the
  string goes through the format patterns and the ISO parser; none reads it and the
  result is the sentinel. It fails on 300012310120000 too: the value as milliseconds
  lies beyond the year 9999, and the ISO parser of CPython 3.11 reads the string as
  3000-12-31 at 12:00:00, the date that is returned.
\<close>

theorem C8_counterexample:
  "list_all (is_digit lib0) (asc ''999999999999'')
   \<and> epoch_try lib0 (asc ''999999999999'') = Inl ValueError
   \<and> try_parse_iso_date lib0 (VStr (asc ''999999999999''))
       = later_stages lib0 (asc ''999999999999'')
   \<and> try_parse_iso_date lib0 (VStr (asc ''999999999999'')) = None
   \<and> list_all (is_digit lib0) (asc ''300012310120000'')
   \<and> epoch_try lib0 (asc ''300012310120000'') = Inl ValueError
   \<and> fromisoformat lib0 (asc ''300012310120000'') = Inr (3000, 12, 31)
   \<and> try_parse_iso_date lib0 (VStr (asc ''300012310120000'')) = Some (3000, 12, 31)"
  by code_simp

text \<open>
  Claim C8, amended. In a runtime whose local time is within a day of UTC and whose
  decimal digits are not white space: a string of digits is read as an integer \<open>n\<close>,
  taken as milliseconds when \<open>n\<close> exceeds \<open>10\<^sup>1\<^sup>2\<close> and as seconds otherwise, and the
  result is the local date of that instant whenever the conversion succeeds, which it
  does when the local year is within 1..9999; when the conversion raises, the string
  does reach the format patterns and the ISO parser, and the result is theirs.
  "1700000000" and "1700000000000" give the local date of the same instant, which is
  not the sentinel. An input that is no date object, on which the numeric branch does
  not apply or raises, every format pattern raises and the ISO parser raises, gives the
  sentinel.
\<close>

theorem C8_epoch_strings:
  assumes off: "\<forall>t. \<bar>utcoff lib t\<bar> \<le> 86400"
    and dsp: "\<forall>c. is_digit lib c \<longrightarrow> \<not> isspace c"
  shows "(s \<noteq> [] \<and> (\<forall>c \<in> set s. is_digit lib c) \<longrightarrow>
           (\<exists>n. py_int lib s = Some n
              \<and> try_parse_iso_date lib (VStr s)
                  = (case fromtimestamp lib (if n > 1000000000000 then n div 1000 else n) of
                       Inr d \<Rightarrow> Some d
                     | Inl e \<Rightarrow>
                         (case format_stage lib s FORMATS of
                            Some d \<Rightarrow> Some d
                          | None \<Rightarrow>
                              (case fromisoformat lib s of Inr d \<Rightarrow> Some d | Inl e' \<Rightarrow> None)))))
         \<and> (1 \<le> fst (civil_from_days ((t + utcoff lib t) div 86400))
              \<and> fst (civil_from_days ((t + utcoff lib t) div 86400)) \<le> 9999 \<longrightarrow>
              fromtimestamp lib t = Inr (civil_from_days ((t + utcoff lib t) div 86400)))
         \<and> try_parse_iso_date lib (VStr (asc ''1700000000''))
             = Some (civil_from_days ((1700000000 + utcoff lib 1700000000) div 86400))
         \<and> try_parse_iso_date lib (VStr (asc ''1700000000000''))
             = Some (civil_from_days ((1700000000 + utcoff lib 1700000000) div 86400))
         \<and> (let s2 = strip (py_str lib v);
                 s3 = (if s2 \<noteq> [] \<and> last s2 = 90 then butlast s2 else s2)
             in (case v of VDate d \<Rightarrow> False | VDateTime d \<Rightarrow> False | _ \<Rightarrow> True)
                \<and> (is_numeric lib s2 \<longrightarrow> (\<exists>e. epoch_try lib s2 = Inl e))
                \<and> (\<forall>fmt \<in> set FORMATS. \<exists>e. strptime lib s3 fmt = Inl e)
                \<and> (\<exists>e. fromisoformat lib s3 = Inl e)
                \<longrightarrow> try_parse_iso_date lib v = None)"
proof -
  have gen: "s \<noteq> [] \<and> (\<forall>c \<in> set s. is_digit lib c) \<longrightarrow>
           (\<exists>n. py_int lib s = Some n
              \<and> try_parse_iso_date lib (VStr s)
                  = (case fromtimestamp lib (if n > 1000000000000 then n div 1000 else n) of
                       Inr d \<Rightarrow> Some d
                     | Inl e \<Rightarrow>
                         (case format_stage lib s FORMATS of
                            Some d \<Rightarrow> Some d
                          | None \<Rightarrow>
                              (case fromisoformat lib s of Inr d \<Rightarrow> Some d | Inl e' \<Rightarrow> None))))"
  proof
    assume h: "s \<noteq> [] \<and> (\<forall>c \<in> set s. is_digit lib c)"
    then obtain n where n: "py_int lib s = Some n" "is_numeric lib s"
        "epoch_try lib s = fromtimestamp lib (if n > 1000000000000 then n div 1000 else n)"
      using epoch_try_digits[of s lib] by blast
    have st: "strip s = s" using h dsp by (intro strip_no_space_ends) blast
    have "\<not> is_digit lib 90" by (simp add: is_digit_def digit_val_def)
    moreover have "is_digit lib (last s)" using h by simp
    ultimately have z: "last s \<noteq> 90" by metis
    have ls: "later_stages lib s
                = (case format_stage lib s FORMATS of
                     Some d \<Rightarrow> Some d
                   | None \<Rightarrow> (case fromisoformat lib s of Inr d \<Rightarrow> Some d | Inl e' \<Rightarrow> None))"
      using z by (simp add: later_stages_def)
    have "try_parse_iso_date lib (VStr s)
            = (case epoch_try lib s of Inr d \<Rightarrow> Some d | Inl e \<Rightarrow> later_stages lib s)"
      using h n(2) by (simp add: try_parse_iso_date_def py_str_def st Let_def)
    then have "try_parse_iso_date lib (VStr s)
                  = (case fromtimestamp lib (if n > 1000000000000 then n div 1000 else n) of
                       Inr d \<Rightarrow> Some d
                     | Inl e \<Rightarrow>
                         (case format_stage lib s FORMATS of
                            Some d \<Rightarrow> Some d
                          | None \<Rightarrow>
                              (case fromisoformat lib s of Inr d \<Rightarrow> Some d | Inl e' \<Rightarrow> None)))"
      unfolding ls n(3) .
    then show "\<exists>n. py_int lib s = Some n
              \<and> try_parse_iso_date lib (VStr s)
                  = (case fromtimestamp lib (if n > 1000000000000 then n div 1000 else n) of
                       Inr d \<Rightarrow> Some d
                     | Inl e \<Rightarrow>
                         (case format_stage lib s FORMATS of
                            Some d \<Rightarrow> Some d
                          | None \<Rightarrow>
                              (case fromisoformat lib s of Inr d \<Rightarrow> Some d | Inl e' \<Rightarrow> None)))"
      using n(1) by blast
  qed
  have ft: "1 \<le> fst (civil_from_days ((t + utcoff lib t) div 86400))
              \<and> fst (civil_from_days ((t + utcoff lib t) div 86400)) \<le> 9999 \<longrightarrow>
              fromtimestamp lib t = Inr (civil_from_days ((t + utcoff lib t) div 86400))"
    by (simp add: fromtimestamp_def Let_def)
  have o: "\<bar>utcoff lib 1700000000\<bar> \<le> 86400" using off by blast
  have d1: "\<forall>c \<in> set (asc ''1700000000''). is_digit lib c"
    by (simp add: asc_def ascii_digit_is_digit)
  have d2: "\<forall>c \<in> set (asc ''1700000000000''). is_digit lib c"
    by (simp add: asc_def ascii_digit_is_digit)
  have s1: "strip (asc ''1700000000'') = asc ''1700000000''"
    using d1 dsp by (intro strip_no_space_ends) blast
  have s2: "strip (asc ''1700000000000'') = asc ''1700000000000''"
    using d2 dsp by (intro strip_no_space_ends) blast
  have n1: "asc ''1700000000'' \<noteq> []" "asc ''1700000000000'' \<noteq> []" by (simp_all add: asc_def)
  have e1: "is_numeric lib (asc ''1700000000'')"
    "epoch_try lib (asc ''1700000000'') = fromtimestamp lib 1700000000"
    using epoch_try_digits[OF n1(1) d1] by (simp_all add: py_int_1700000000)
  have e2: "is_numeric lib (asc ''1700000000000'')"
    "epoch_try lib (asc ''1700000000000'') = fromtimestamp lib 1700000000"
    using epoch_try_digits[OF n1(2) d2] by (simp_all add: py_int_1700000000)
  have t1: "try_parse_iso_date lib (VStr (asc ''1700000000''))
             = Some (civil_from_days ((1700000000 + utcoff lib 1700000000) div 86400))"
    using n1 by (simp add: try_parse_iso_date_def py_str_def s1 e1
        fromtimestamp_1700000000[OF o] Let_def)
  have t2: "try_parse_iso_date lib (VStr (asc ''1700000000000''))
             = Some (civil_from_days ((1700000000 + utcoff lib 1700000000) div 86400))"
    using n1 by (simp add: try_parse_iso_date_def py_str_def s2 e2
        fromtimestamp_1700000000[OF o] Let_def)
  have fs: "format_stage lib x fmts = None" if "\<forall>fmt \<in> set fmts. \<exists>e. strptime lib x fmt = Inl e"
    for x fmts
    using that by (induction fmts) auto
  have un: "(let s2 = strip (py_str lib v);
                 s3 = (if s2 \<noteq> [] \<and> last s2 = 90 then butlast s2 else s2)
             in (case v of VDate d \<Rightarrow> False | VDateTime d \<Rightarrow> False | _ \<Rightarrow> True)
                \<and> (is_numeric lib s2 \<longrightarrow> (\<exists>e. epoch_try lib s2 = Inl e))
                \<and> (\<forall>fmt \<in> set FORMATS. \<exists>e. strptime lib s3 fmt = Inl e)
                \<and> (\<exists>e. fromisoformat lib s3 = Inl e)
                \<longrightarrow> try_parse_iso_date lib v = None)"
    unfolding Let_def
  proof (intro impI, elim conjE)
    let ?s2 = "strip (py_str lib v)"
    let ?s3 = "if ?s2 \<noteq> [] \<and> last ?s2 = 90 then butlast ?s2 else ?s2"
    assume nd: "case v of VDate d \<Rightarrow> False | VDateTime d \<Rightarrow> False | _ \<Rightarrow> True"
      and ep: "is_numeric lib ?s2 \<longrightarrow> (\<exists>e. epoch_try lib ?s2 = Inl e)"
      and fm: "\<forall>fmt \<in> set FORMATS. \<exists>e. strptime lib ?s3 fmt = Inl e"
      and iso: "\<exists>e. fromisoformat lib ?s3 = Inl e"
    have l: "later_stages lib ?s2 = None"
      using fs[OF fm] iso by (auto simp: later_stages_def Let_def)
    show "try_parse_iso_date lib v = None"
      using nd ep l by (cases v) (auto simp: try_parse_iso_date_def Let_def)
  qed
  show ?thesis using gen ft t1 t2 un by blast
qed

theorem C8_witness:
  "(\<forall>t. \<bar>utcoff lib0 t\<bar> \<le> 86400)
   \<and> list_all (\<lambda>c. \<not> (is_digit lib0 c \<and> isspace c)) [9, 32, 48, 57, 160, 1632, 8232]
   \<and> try_parse_iso_date lib0 (VStr (asc ''1700000000'')) = Some (2023, 11, 14)
   \<and> try_parse_iso_date lib0 (VStr (asc ''1700000000000'')) = Some (2023, 11, 14)
   \<and> try_parse_iso_date lib0 (VStr (asc ''20231114'')) = Some (1970, 8, 23)
   \<and> try_parse_iso_date lib0 (VStr (asc ''bom dia'')) = None"
proof -
  have off: "\<forall>t. \<bar>utcoff lib0 t\<bar> \<le> 86400" by (simp add: lib0_def lib_tables_def)
  have dsp: "\<forall>c. is_digit lib0 c \<longrightarrow> \<not> isspace c"
    using lib0_digits_not_space by blast
  have c: "civil_from_days ((1700000000 + utcoff lib0 1700000000) div 86400) = (2023, 11, 14)"
    by code_simp
  have s: "asc ''20231114'' \<noteq> [] \<and> (\<forall>c \<in> set (asc ''20231114''). is_digit lib0 c)"
    by (simp add: asc_def ascii_digit_is_digit)
  have p: "py_int lib0 (asc ''20231114'') = Some 20231114"
    by (simp add: py_int_def asc_def digit_val_def)
  have f: "fromtimestamp lib0 20231114 = Inr (1970, 8, 23)" by code_simp
  have g: "try_parse_iso_date lib0 (VStr (asc ''20231114'')) = Some (1970, 8, 23)"
    using C8_epoch_strings[OF off dsp, of "asc ''20231114''"] s p f by auto
  have u1: "strip (py_str lib0 (VStr (asc ''bom dia''))) = asc ''bom dia''" by code_simp
  have u2: "\<not> is_numeric lib0 (asc ''bom dia'')" by code_simp
  have u3: "list_all (\<lambda>fmt. strptime lib0 (asc ''bom dia'') fmt = Inl ValueError) FORMATS"
    by code_simp
  have u4: "fromisoformat lib0 (asc ''bom dia'') = Inl ValueError" by code_simp
  have u5: "last (asc ''bom dia'') \<noteq> 90" by (simp add: asc_def)
  have u: "try_parse_iso_date lib0 (VStr (asc ''bom dia'')) = None"
    using C8_epoch_strings[OF off dsp, where v = "VStr (asc ''bom dia'')"] u1 u2 u3 u4 u5
    unfolding Let_def list_all_iff by auto
  have l: "list_all (\<lambda>c. \<not> (is_digit lib0 c \<and> isspace c)) [9, 32, 48, 57, 160, 1632, 8232]"
    using dsp by simp
  show ?thesis
    using off l C8_epoch_strings[OF off dsp, of "[]" 0 "VNone"] c g u by simp
qed


section \<open>Messages without a text\<close>

text \<open>
  Claim C2 at a message whose text is null, and at one whose text is a number:
  \<open>extract_records\<close> of \<open>app\<close> raises TypeError at the test for the trigger
  substrings, where the extractor of \<open>gestao_risco\<close>, which reads the text through
  \<open>_get_text_from_msg\<close>, skips the message.
\<close>

theorem C2_null_text:
  "extract_records lib [[(asc ''text'', VNone)]] = Inl TypeError
   \<and> extract_records lib [[(asc ''text'', VInt 5)]] = Inl TypeError
   \<and> g_extract_records lib [[(asc ''text'', VNone)]] = []"
  by (simp add: extract_records_def a_step_def dget_default_def py_in_def
      g_extract_records_def get_text_from_msg_def dget_def py_or_def asc_def)


section \<open>Open signals and their resolved lines\<close>

text \<open>
  The two passes of \<open>validacao_horarios\<close>: the last open signal of a key decides the
  entry of the key, and the payout of every record is the entry of its key after the
  whole first pass.
\<close>

lemma v_pass1_snoc:
  "v_pass1 lib (ms @ [m]) signals
     = (case v_signal lib m of
          None \<Rightarrow> v_pass1 lib ms signals
        | Some (k, p) \<Rightarrow> (v_pass1 lib ms signals)(k \<mapsto> p))"
  by (induction ms arbitrary: signals) (simp_all split: option.splits)

lemma v_record_payout:
  "v_record lib signals m = Inr (Some r)
     \<Longrightarrow> payout r = (case signals (pair r, time r) of None \<Rightarrow> None | Some p \<Rightarrow> p)"
  by (auto simp: v_record_def Let_def split: if_splits option.splits sum.splits)

lemma v_pass2_append:
  "v_pass2 lib signals ms acc = Inr rs
     \<Longrightarrow> \<exists>new. rs = acc @ new
           \<and> (\<forall>r \<in> set new. payout r = (case signals (pair r, time r) of None \<Rightarrow> None | Some p \<Rightarrow> p))"
proof (induction ms arbitrary: acc)
  case Nil
  then show ?case by simp
next
  case (Cons m ms)
  show ?case
  proof (cases "v_record lib signals m")
    case (Inl e)
    with Cons.prems show ?thesis by simp
  next
    case (Inr opt)
    show ?thesis
    proof (cases opt)
      case None
      with Inr Cons show ?thesis by simp
    next
      case (Some r)
      with Inr Cons.prems have "v_pass2 lib signals ms (acc @ [r]) = Inr rs" by simp
      then obtain new where n: "rs = (acc @ [r]) @ new"
        "\<forall>x \<in> set new. payout x = (case signals (pair x, time x) of None \<Rightarrow> None | Some p \<Rightarrow> p)"
        using Cons.IH by blast
      have "payout r = (case signals (pair r, time r) of None \<Rightarrow> None | Some p \<Rightarrow> p)"
        using v_record_payout Inr Some by blast
      with n show ?thesis by (intro exI[of _ "r # new"]) simp
    qed
  qed
qed

lemma v_extract_records_payout:
  assumes "v_extract_records lib messages = Inr rs" and "r \<in> set rs"
  shows "payout r
           = (case v_pass1 lib messages Map.empty (pair r, time r) of None \<Rightarrow> None | Some p \<Rightarrow> p)"
  using v_pass2_append[of lib "v_pass1 lib messages Map.empty" messages "[]" rs] assms
  by (auto simp: v_extract_records_def)


text \<open>
  Claim C1 at a resolved line followed by its open signal. \<open>extract_records\<close> of
  \<open>app\<close> reads the messages once and looks the payout up before it has seen the
  signal: the payout of the record is null. With the signal first it is 0.87, and the
  two passes of \<open>validacao_horarios\<close> give 0.87 in both orders.
\<close>

theorem C1_signal_after_its_line:
  "(case extract_records lib0
           [[(asc ''text'', VStr ([9989, 185] @ asc '' EURUSD-OTC - 14:05:00 - M1 - call - WIN''))],
            [(asc ''text'', VStr (asc ''Ativo: EURUSD-OTC Hor'' @ [225] @ asc ''rio: 14:05:00 Payout: 87%''))]] of
      Inl e \<Rightarrow> [] | Inr st \<Rightarrow> map payout (fst st)) = [None]
   \<and> (case extract_records lib0
           [[(asc ''text'', VStr (asc ''Ativo: EURUSD-OTC Hor'' @ [225] @ asc ''rio: 14:05:00 Payout: 87%''))],
            [(asc ''text'', VStr ([9989, 185] @ asc '' EURUSD-OTC - 14:05:00 - M1 - call - WIN''))]] of
      Inl e \<Rightarrow> [] | Inr st \<Rightarrow> map payout (fst st)) = [Some (87 / 100)]
   \<and> (case v_extract_records lib0
           [[(asc ''text'', VStr ([9989, 185] @ asc '' EURUSD-OTC - 14:05:00 - M1 - call - WIN''))],
            [(asc ''text'', VStr (asc ''Ativo: EURUSD-OTC Hor'' @ [225] @ asc ''rio: 14:05:00 Payout: 87%''))]] of
      Inl e \<Rightarrow> [] | Inr rs \<Rightarrow> map payout rs) = [Some (87 / 100)]
   \<and> (case v_extract_records lib0
           [[(asc ''text'', VStr (asc ''Ativo: EURUSD-OTC Hor'' @ [225] @ asc ''rio: 14:05:00 Payout: 87%''))],
            [(asc ''text'', VStr ([9989, 185] @ asc '' EURUSD-OTC - 14:05:00 - M1 - call - WIN''))]] of
      Inl e \<Rightarrow> [] | Inr rs \<Rightarrow> map payout rs) = [Some (87 / 100)]"
  by code_simp


text \<open>
  \<open>extract_records\<close> of \<open>app\<close> also stores a signal only when its payout is present,
  so a later signal of the same key without a payout does not clear the entry.
\<close>

lemma app_needs_the_payout:
  "(case extract_records lib0
           [[(asc ''text'', VStr (asc ''Ativo: EURUSD-OTC Hor'' @ [225] @ asc ''rio: 14:05:00 Payout: 87%''))],
            [(asc ''text'', VStr (asc ''Ativo: EURUSD-OTC Horario: 14:05:00''))],
            [(asc ''text'', VStr ([9989, 185] @ asc '' EURUSD-OTC - 14:05:00 - M1 - call - WIN''))]] of
      Inl e \<Rightarrow> [] | Inr st \<Rightarrow> map payout (fst st)) = [Some (87 / 100)]
   \<and> (case v_extract_records lib0
           [[(asc ''text'', VStr (asc ''Ativo: EURUSD-OTC Hor'' @ [225] @ asc ''rio: 14:05:00 Payout: 87%''))],
            [(asc ''text'', VStr (asc ''Ativo: EURUSD-OTC Horario: 14:05:00''))],
            [(asc ''text'', VStr ([9989, 185] @ asc '' EURUSD-OTC - 14:05:00 - M1 - call - WIN''))]] of
      Inl e \<Rightarrow> [] | Inr rs \<Rightarrow> map payout rs) = [None]"
  by code_simp


end
